theory Spec2Isabelle
  imports Main
begin

section \<open>Persistent store (packages/storage/lib/impl/githubStorage.ts)\<close>

text \<open>
  Three named records are kept in the extension's local storage area: the bearer token
  (\<open>github_auth_token\<close>, default the empty string), the repository target
  (\<open>github_selected_repo\<close>) and the device-flow session (\<open>github_device_code\<close>,
  default \<open>null\<close>). JavaScript numbers that hold timestamps and durations are modelled
  as \<open>int\<close>; an optional field is an \<open>option\<close>.
\<close>

record RepoConfig =
  owner :: string
  repo :: string
  branch :: string
  path :: string

record DeviceCodeInfo =
  device_code :: string
  user_code :: string
  verification_uri :: string
  interval :: int
  expires_in :: int
  expires_at :: "int option"

record storage =
  github_auth_token :: string
  github_selected_repo :: RepoConfig
  github_device_code :: "DeviceCodeInfo option"

text \<open>The defaults given to the three \<open>createStorage\<close> calls.\<close>

definition defaultRepoConfig :: RepoConfig where
  "defaultRepoConfig =
     \<lparr>owner = '''', repo = '''', branch = ''main'', path = ''leetcode-solutions''\<rparr>"

definition initialStorage :: storage where
  "initialStorage =
     \<lparr>github_auth_token = '''', github_selected_repo = defaultRepoConfig,
      github_device_code = None\<rparr>"

text \<open>
  Modelled from the spec: the \<open>get\<close> and \<open>set\<close> of the three stores, which
  \<open>createStorage\<close> (packages/storage/lib/base, not among the sources) provides. The
  spec gives the contract as \<open>get(key) -> value | default\<close> and
  \<open>set(key, value | updater-function) -> void\<close>: \<open>get\<close> returns what is stored under
  the key, \<open>set\<close> replaces it by the value, or by the updater applied to it, and
  leaves the other keys alone. Neither is taken to fail.
\<close>

definition authTokenStorage_get :: "storage \<Rightarrow> string" where
  "authTokenStorage_get s = github_auth_token s"

definition authTokenStorage_set :: "string \<Rightarrow> storage \<Rightarrow> storage" where
  "authTokenStorage_set v s = s\<lparr>github_auth_token := v\<rparr>"

definition repoConfigStorage_get :: "storage \<Rightarrow> RepoConfig" where
  "repoConfigStorage_get s = github_selected_repo s"

definition repoConfigStorage_set :: "RepoConfig \<Rightarrow> storage \<Rightarrow> storage" where
  "repoConfigStorage_set v s = s\<lparr>github_selected_repo := v\<rparr>"

definition repoConfigStorage_setWith :: "(RepoConfig \<Rightarrow> RepoConfig) \<Rightarrow> storage \<Rightarrow> storage" where
  "repoConfigStorage_setWith f s = s\<lparr>github_selected_repo := f (github_selected_repo s)\<rparr>"

definition deviceCodeStorage_get :: "storage \<Rightarrow> DeviceCodeInfo option" where
  "deviceCodeStorage_get s = github_device_code s"

definition deviceCodeStorage_set :: "DeviceCodeInfo option \<Rightarrow> storage \<Rightarrow> storage" where
  "deviceCodeStorage_set v s = s\<lparr>github_device_code := v\<rparr>"

subsection \<open>githubAuthStorage\<close>

definition githubAuthStorage_clear :: "storage \<Rightarrow> storage" where
  "githubAuthStorage_clear s = authTokenStorage_set '''' s"

subsection \<open>githubRepoStorage\<close>

text \<open>\<open>Boolean(config.owner && config.repo)\<close>: a string is truthy when it is not empty.\<close>

definition githubRepoStorage_isConfigured :: "storage \<Rightarrow> bool" where
  "githubRepoStorage_isConfigured s =
     (let config = repoConfigStorage_get s in owner config \<noteq> '''' \<and> repo config \<noteq> '''')"

text \<open>\<open>repoConfigStorage.set(config => ({...config, path}))\<close>\<close>

definition githubRepoStorage_updatePath :: "string \<Rightarrow> storage \<Rightarrow> storage" where
  "githubRepoStorage_updatePath p s =
     repoConfigStorage_setWith (\<lambda>config. config\<lparr>path := p\<rparr>) s"

subsection \<open>githubDeviceCodeStorage\<close>

definition githubDeviceCodeStorage_clear :: "storage \<Rightarrow> storage" where
  "githubDeviceCodeStorage_clear s = deviceCodeStorage_set None s"

text \<open>
  \<open>isActive\<close> reads \<open>Date.now()\<close> up to three times (at the \<open>expires_at\<close> test, when
  the fallback timestamp is computed, and when that timestamp is compared); the three
  readings are the parameters \<open>now1\<close>, \<open>now2\<close>, \<open>now3\<close>. A number is truthy when it
  is not zero, an absent \<open>expires_at\<close> is falsy. The result is the returned boolean
  together with the store after the call.
\<close>

definition githubDeviceCodeStorage_isActive ::
    "int \<Rightarrow> int \<Rightarrow> int \<Rightarrow> storage \<Rightarrow> bool \<times> storage" where
  "githubDeviceCodeStorage_isActive now1 now2 now3 s =
     (case deviceCodeStorage_get s of
        None \<Rightarrow> (False, s)
      | Some info \<Rightarrow>
          if (case expires_at info of None \<Rightarrow> False | Some e \<Rightarrow> e \<noteq> 0 \<and> e > now1)
          then (True, s)
          else if expires_in info \<noteq> 0 \<and> now2 + expires_in info * 1000 > now3
          then (True, deviceCodeStorage_set
                        (Some (info\<lparr>expires_at := Some (now2 + expires_in info * 1000)\<rparr>)) s)
          else (False, deviceCodeStorage_set None s))"

definition githubDeviceCodeStorage_setWithExpiration ::
    "int \<Rightarrow> DeviceCodeInfo \<Rightarrow> storage \<Rightarrow> storage" where
  "githubDeviceCodeStorage_setWithExpiration now info s =
     deviceCodeStorage_set (Some (info\<lparr>expires_at := Some (now + expires_in info * 1000)\<rparr>)) s"

text \<open>The session used in the examples below.\<close>

definition exampleSession :: DeviceCodeInfo where
  "exampleSession =
     \<lparr>device_code = ''D1'', user_code = ''ABCD-1234'',
      verification_uri = ''https://example/activate'',
      interval = 5, expires_in = 900, expires_at = Some 1000\<rparr>"

section \<open>Network and effects\<close>

text \<open>
  A JavaScript \<open>Error\<close> is its message. A \<open>fetch\<close> either rejects with an error (a
  transport failure) or resolves to a response with a status and a parsed body; the
  body's type is the one the caller reads from it. \<open>res.ok\<close> holds for the statuses
  200 to 299. Every function that talks to the network returns, next to its result, the
  list of effects it performed, in order (requests, timed waits, opened tabs).
\<close>

datatype exn = Error (message: string)

datatype 'a response = Response (status: nat) (json: 'a)

type_synonym 'a fetched = "exn + 'a response"

definition ok :: "'a response \<Rightarrow> bool" where
  "ok res = (200 \<le> status res \<and> status res \<le> 299)"

record request =
  req_method :: string
  req_url :: string
  req_headers :: "(string \<times> string) list"
  req_body :: "(string \<times> string) list"

datatype effect = Fetch request | Sleep int | OpenTab string

definition fetches :: "effect list \<Rightarrow> request list" where
  "fetches tr = concat (map (\<lambda>e. case e of Fetch r \<Rightarrow> [r] | _ \<Rightarrow> []) tr)"

text \<open>
  The time spent waiting: \<open>setTimeout\<close> with a negative delay fires at once, so a
  wait of \<open>ms\<close> milliseconds lasts \<open>max 0 ms\<close>.
\<close>

definition slept :: "effect list \<Rightarrow> int" where
  "slept tr = sum_list (map (\<lambda>e. case e of Sleep ms \<Rightarrow> max 0 ms | _ \<Rightarrow> 0) tr)"

text \<open>
  The wall-clock time of a run. The code sets no limit on how long a request may take
  to settle: the \<open>k\<close>-th request of the run takes \<open>took k\<close> milliseconds, a timed wait
  lasts as \<open>slept\<close> counts it, and opening a tab takes no time.
\<close>

fun elapsedFrom :: "(nat \<Rightarrow> nat) \<Rightarrow> nat \<Rightarrow> effect list \<Rightarrow> int" where
  "elapsedFrom took k [] = 0"
| "elapsedFrom took k (Fetch r # tr) = int (took (Suc k)) + elapsedFrom took (Suc k) tr"
| "elapsedFrom took k (Sleep ms # tr) = max 0 ms + elapsedFrom took k tr"
| "elapsedFrom took k (OpenTab url # tr) = elapsedFrom took k tr"

definition elapsed :: "(nat \<Rightarrow> nat) \<Rightarrow> effect list \<Rightarrow> int" where
  "elapsed took tr = elapsedFrom took 0 tr"

text \<open>A string or an optional string is truthy when it is present and not empty.\<close>

definition orEmpty :: "string option \<Rightarrow> string" where
  "orEmpty v = (case v of None \<Rightarrow> '''' | Some x \<Rightarrow> x)"

text \<open>A template literal renders an absent value as \<open>undefined\<close>.\<close>

definition render :: "string option \<Rightarrow> string" where
  "render v = (case v of None \<Rightarrow> ''undefined'' | Some x \<Rightarrow> x)"

section \<open>Device flow (chrome-extension/src/background/github-auth.ts)\<close>

definition CLIENT_ID :: string where
  "CLIENT_ID = ''Ov23liGv4JgHmvPmvmgW''"

definition DEVICE_CODE_URL :: string where
  "DEVICE_CODE_URL = ''https://github.com/login/device/code''"

definition TOKEN_URL :: string where
  "TOKEN_URL = ''https://github.com/login/oauth/access_token''"

definition SCOPE :: string where
  "SCOPE = ''read:user user:email repo''"

definition jsonHeaders :: "(string \<times> string) list" where
  "jsonHeaders = [(''Content-Type'', ''application/json''), (''Accept'', ''application/json'')]"

definition deviceCodeRequest :: request where
  "deviceCodeRequest =
     \<lparr>req_method = ''POST'', req_url = DEVICE_CODE_URL, req_headers = jsonHeaders,
      req_body = [(''client_id'', CLIENT_ID), (''scope'', SCOPE)]\<rparr>"

text \<open>
  \<open>startDeviceFlow\<close>: the parameter \<open>now\<close> is the reading of \<open>Date.now()\<close>, \<open>out\<close>
  what the device-code endpoint does. The server's data carries no \<open>expires_at\<close>; the
  stored copy gets \<open>now + expires_in * 1000\<close>, the returned value is the data itself.
\<close>

definition startDeviceFlow ::
    "int \<Rightarrow> DeviceCodeInfo fetched \<Rightarrow> storage
       \<Rightarrow> (exn + DeviceCodeInfo) \<times> storage \<times> effect list" where
  "startDeviceFlow now out s =
     (case out of
        Inl e \<Rightarrow> (Inl e, s, [Fetch deviceCodeRequest])
      | Inr res \<Rightarrow>
          if \<not> ok res
          then (Inl (Error ''Failed to initiate GitHub device flow''), s,
                [Fetch deviceCodeRequest])
          else
            let data = json res;
                expiresAt = now + expires_in data * 1000;
                deviceInfo = data\<lparr>expires_at := Some expiresAt\<rparr>
            in (Inr data, deviceCodeStorage_set (Some deviceInfo) s,
                [Fetch deviceCodeRequest]))"

subsection \<open>pollForAccessToken\<close>

record token_data =
  access_token :: "string option"
  error :: "string option"

definition tokenRequest :: "string \<Rightarrow> request" where
  "tokenRequest deviceCode =
     \<lparr>req_method = ''POST'', req_url = TOKEN_URL, req_headers = jsonHeaders,
      req_body = [(''client_id'', CLIENT_ID), (''device_code'', deviceCode),
                  (''grant_type'', ''urn:ietf:params:oauth:grant-type:device_code'')]\<rparr>"

definition maxAttempts :: nat where
  "maxAttempts = 60"

text \<open>
  The \<open>while (attempts < maxAttempts)\<close> loop. \<open>net k\<close> is what the token endpoint
  does at the \<open>k\<close>-th request (\<open>k\<close> is the value of \<open>attempts\<close> after the increment).
  The \<open>catch\<close> block rethrows whatever the \<open>try\<close> block threw: a rejected \<open>fetch\<close>
  and the OAuth error both leave the loop.
\<close>

function pollLoop ::
    "(nat \<Rightarrow> token_data fetched) \<Rightarrow> string \<Rightarrow> int \<Rightarrow> nat \<Rightarrow> effect list
       \<Rightarrow> (exn + string) \<times> effect list" where
  "pollLoop net deviceCode ival attempts tr =
     (if attempts < maxAttempts then
        (case net (attempts + 1) of
           Inl e \<Rightarrow> (Inl e, tr @ [Fetch (tokenRequest deviceCode)])
         | Inr res \<Rightarrow>
             if \<not> ok res
             then pollLoop net deviceCode ival (attempts + 1)
                    (tr @ [Fetch (tokenRequest deviceCode), Sleep (ival * 1000)])
             else if orEmpty (access_token (json res)) \<noteq> ''''
             then (Inr (orEmpty (access_token (json res))),
                   tr @ [Fetch (tokenRequest deviceCode)])
             else if error (json res) = Some ''authorization_pending''
             then pollLoop net deviceCode ival (attempts + 1)
                    (tr @ [Fetch (tokenRequest deviceCode), Sleep (ival * 1000)])
             else (Inl (Error (''GitHub OAuth failed: '' @ render (error (json res)))),
                   tr @ [Fetch (tokenRequest deviceCode)]))
      else (Inl (Error ''Authentication timed out. Please try again.''), tr))"
  by pat_completeness auto
termination
  by (relation "measure (\<lambda>(net, deviceCode, ival, attempts, tr). maxAttempts - attempts)") auto

declare pollLoop.simps [simp del]

definition pollForAccessToken ::
    "(nat \<Rightarrow> token_data fetched) \<Rightarrow> string \<Rightarrow> int \<Rightarrow> (exn + string) \<times> effect list" where
  "pollForAccessToken net deviceCode ival = pollLoop net deviceCode ival 0 []"

subsection \<open>Token validation and session query\<close>

record user_info =
  login :: string
  name :: string
  avatar_url :: string

definition userRequest :: "string \<Rightarrow> request" where
  "userRequest token =
     \<lparr>req_method = ''GET'', req_url = ''https://api.github.com/user'',
      req_headers = [(''Authorization'', ''token '' @ token),
                     (''Accept'', ''application/vnd.github.v3+json'')],
      req_body = []\<rparr>"

text \<open>\<open>validateGithubToken\<close>: the \<open>catch\<close> block turns a rejected \<open>fetch\<close> into false.\<close>

definition validateGithubToken :: "'a fetched \<Rightarrow> string \<Rightarrow> bool \<times> effect list" where
  "validateGithubToken out token =
     (case out of
        Inl e \<Rightarrow> (False, [Fetch (userRequest token)])
      | Inr res \<Rightarrow> (status res = 200, [Fetch (userRequest token)]))"

definition getGithubUserInfo ::
    "user_info fetched \<Rightarrow> string \<Rightarrow> (exn + user_info) \<times> effect list" where
  "getGithubUserInfo out token =
     (case out of
        Inl e \<Rightarrow> (Inl e, [Fetch (userRequest token)])
      | Inr res \<Rightarrow>
          if \<not> ok res
          then (Inl (Error ''Failed to fetch user information''), [Fetch (userRequest token)])
          else (Inr (json res), [Fetch (userRequest token)]))"

definition isAuthenticated :: "'a fetched \<Rightarrow> storage \<Rightarrow> bool \<times> effect list" where
  "isAuthenticated out s =
     (let token = authTokenStorage_get s
      in if token = '''' then (False, []) else validateGithubToken out token)"

definition signOut :: "storage \<Rightarrow> storage" where
  "signOut s = githubAuthStorage_clear s"

subsection \<open>Classifying the token endpoint's answers\<close>

text \<open>
  The loop goes round again on exactly two kinds of answer: a response whose status is
  not a success, and a successful response without a token whose \<open>error\<close> is
  \<open>authorization_pending\<close>. Every other answer ends the loop at once, with the result
  \<open>terminal\<close>: the rethrown transport error, the token, or the OAuth error. One more
  round adds \<open>retryRound\<close> to the effects.
\<close>

definition retried :: "token_data fetched \<Rightarrow> bool" where
  "retried out =
     (case out of
        Inl e \<Rightarrow> False
      | Inr res \<Rightarrow>
          \<not> ok res \<or>
          (orEmpty (access_token (json res)) = '''' \<and>
           error (json res) = Some ''authorization_pending''))"

definition terminal :: "token_data fetched \<Rightarrow> exn + string" where
  "terminal out =
     (case out of
        Inl e \<Rightarrow> Inl e
      | Inr res \<Rightarrow>
          if orEmpty (access_token (json res)) \<noteq> ''''
          then Inr (orEmpty (access_token (json res)))
          else Inl (Error (''GitHub OAuth failed: '' @ render (error (json res)))))"

definition retryRound :: "string \<Rightarrow> int \<Rightarrow> effect list" where
  "retryRound deviceCode ival = [Fetch (tokenRequest deviceCode), Sleep (ival * 1000)]"

text \<open>Answers of the token endpoint used in the examples.\<close>

definition pendingResponse :: "token_data fetched" where
  "pendingResponse =
     Inr (Response 200 \<lparr>access_token = None, error = Some ''authorization_pending''\<rparr>)"

definition tokenResponse :: "string \<Rightarrow> token_data fetched" where
  "tokenResponse t = Inr (Response 200 \<lparr>access_token = Some t, error = None\<rparr>)"

definition unavailableResponse :: "token_data fetched" where
  "unavailableResponse = Inr (Response 503 \<lparr>access_token = None, error = None\<rparr>)"

section \<open>Strings\<close>

text \<open>
  A string is modelled as its sequence of UTF-8 bytes (\<open>char\<close> is a byte). On such a
  string \<open>unescape(encodeURIComponent(s))\<close> is the string itself and \<open>\d\<close> matches
  the digits 0 to 9.

  \<open>String.prototype.toLowerCase\<close> belongs to the platform and follows the Unicode case
  mapping: the functions that call it take it as the parameter \<open>lower\<close>. On a string of
  ASCII characters it changes the letters A to Z and nothing else, which is
  \<open>asciiLowerCase\<close>; the examples, whose strings are ASCII, use that.
\<close>

definition lowerChar :: "char \<Rightarrow> char" where
  "lowerChar c =
     (case map_of (zip ''ABCDEFGHIJKLMNOPQRSTUVWXYZ'' ''abcdefghijklmnopqrstuvwxyz'') c of
        Some l \<Rightarrow> l
      | None \<Rightarrow> c)"

definition asciiLowerCase :: "string \<Rightarrow> string" where
  "asciiLowerCase s = map lowerChar s"

definition isDigit :: "char \<Rightarrow> bool" where
  "isDigit c = (c \<in> set ''0123456789'')"

definition endsWith :: "string \<Rightarrow> string \<Rightarrow> bool" where
  "endsWith s suffix = (length suffix \<le> length s \<and> drop (length s - length suffix) s = suffix)"


text \<open>Decimal rendering of a number in a template literal.\<close>

definition digitChar :: "nat \<Rightarrow> char" where
  "digitChar d = ''0123456789'' ! (d mod 10)"

fun showNat :: "nat \<Rightarrow> string" where
  "showNat n =
     (if n < 10 then [digitChar n]
      else showNat (n div 10) @ [digitChar (n mod 10)])"

declare showNat.simps [simp del]

definition showInt :: "int \<Rightarrow> string" where
  "showInt i = (if i < 0 then ''-'' @ showNat (nat (- i)) else showNat (nat i))"

text \<open>\<open>btoa\<close> is the base64 encoding of the bytes, three at a time, padded with \<open>=\<close>.\<close>

definition b64chars :: string where
  "b64chars = ''ABCDEFGHIJKLMNOPQRSTUVWXYZabcdefghijklmnopqrstuvwxyz0123456789+/''"

definition b64 :: "nat \<Rightarrow> char" where
  "b64 n = b64chars ! (n mod 64)"

fun btoa :: "string \<Rightarrow> string" where
  "btoa (a # b # c # rest) =
     (let n = of_char a * 65536 + of_char b * 256 + (of_char c :: nat)
      in [b64 (n div 262144), b64 (n div 4096), b64 (n div 64), b64 n] @ btoa rest)"
| "btoa [a, b] =
     (let n = of_char a * 65536 + (of_char b :: nat) * 256
      in [b64 (n div 262144), b64 (n div 4096), b64 (n div 64), CHR ''=''])"
| "btoa [a] =
     (let n = (of_char a :: nat) * 65536
      in [b64 (n div 262144), b64 (n div 4096), CHR ''='', CHR ''=''])"
| "btoa [] = []"

section \<open>Property reads on object literals\<close>

text \<open>
  \<open>obj[key]\<close> on an object literal finds the literal's own entries and, where there is
  none for the key, what every plain object inherits from \<open>Object.prototype\<close>: under
  \<open>__proto__\<close> the prototype object itself, under the names of \<open>inheritedFunctions\<close>
  a function. Both are truthy. Any other key gives \<open>undefined\<close>.
\<close>

datatype 'a property = Own 'a | InheritedObject | InheritedFunction | Missing

definition inheritedFunctions :: "string list" where
  "inheritedFunctions =
     [''constructor'', ''__defineGetter__'', ''__defineSetter__'', ''hasOwnProperty'',
      ''__lookupGetter__'', ''__lookupSetter__'', ''isPrototypeOf'', ''propertyIsEnumerable'',
      ''toString'', ''valueOf'', ''toLocaleString'']"

definition getProperty :: "(string \<times> 'a) list \<Rightarrow> string \<Rightarrow> 'a property" where
  "getProperty obj key =
     (case map_of obj key of
        Some v \<Rightarrow> Own v
      | None \<Rightarrow>
          if key = ''__proto__'' then InheritedObject
          else if key \<in> set inheritedFunctions then InheritedFunction
          else Missing)"

section \<open>Commit publisher (background/github-api.ts and the content script)\<close>

text \<open>
  The content script's \<open>saveSolutionToGitHub\<close> picks the file extension from its
  language table and sends the solution to the background script, whose
  \<open>commitSolutionToGithub\<close> builds the file name and issues the request.
\<close>

record solution_data =
  problemId :: string
  problemName :: string
  language :: string
  extension :: "string option"
  code :: string

definition languageToExtension :: "(string \<times> string) list" where
  "languageToExtension =
     [(''c'', ''c''), (''cpp'', ''cpp''), (''c++'', ''cpp''), (''java'', ''java''),
      (''python'', ''py''), (''python3'', ''py''), (''csharp'', ''cs''), (''c#'', ''cs''),
      (''javascript'', ''js''), (''typescript'', ''ts''), (''php'', ''php''),
      (''swift'', ''swift''), (''kotlin'', ''kt''), (''dart'', ''dart''), (''go'', ''go''),
      (''ruby'', ''rb''), (''scala'', ''scala''), (''rust'', ''rs''), (''racket'', ''rkt''),
      (''erlang'', ''erl''), (''elixir'', ''ex''), (''unknown'', ''txt'')]"

text \<open>
  The value of the variable \<open>extension\<close> in \<open>saveSolutionToGitHub\<close>: it starts as
  \<open>txt\<close> and is replaced by \<open>languageToExtension[normalizedLang]\<close> when that is
  truthy, so it is a string, or the prototype object, or a function.
\<close>

datatype ext_value = ExtString string | ExtObject | ExtFunction

definition extensionFor :: "(string \<Rightarrow> string) \<Rightarrow> string \<Rightarrow> ext_value" where
  "extensionFor lower lang =
     (case getProperty languageToExtension (lower lang) of
        Own ext \<Rightarrow> if ext \<noteq> '''' then ExtString ext else ExtString ''txt''
      | InheritedObject \<Rightarrow> ExtObject
      | InheritedFunction \<Rightarrow> ExtFunction
      | Missing \<Rightarrow> ExtString ''txt'')"

text \<open>
  \<open>chrome.runtime.sendMessage\<close> carries the JSON form of the message: a string arrives
  as it is, a property whose value is a function is left out, and \<open>Object.prototype\<close>,
  which has no enumerable property, arrives as an empty object. The background script
  uses \<open>data.extension\<close> in \<open>data.extension || 'txt'\<close> and in the template literal of
  the file name only, where an object is truthy and reads \<open>[object Object]\<close>; an object
  that arrives is modelled by that reading.
\<close>

definition received :: "ext_value \<Rightarrow> string option" where
  "received v =
     (case v of
        ExtString str \<Rightarrow> Some str
      | ExtObject \<Rightarrow> Some ''[object Object]''
      | ExtFunction \<Rightarrow> None)"

text \<open>
  \<open>saveSolutionToGitHub\<close>: the result is the \<open>data\<close> of the
  \<open>submit-leetcode-solution\<close> message as the background script receives it, or nothing
  when the extension runtime is not available
  (\<open>typeof chrome === 'undefined' || !chrome.runtime\<close>).
\<close>

definition saveSolutionToGitHub ::
    "(string \<Rightarrow> string) \<Rightarrow> bool \<Rightarrow> string \<Rightarrow> string \<Rightarrow> string \<Rightarrow> string
       \<Rightarrow> solution_data option" where
  "saveSolutionToGitHub lower runtimeAvailable pid pname lang src =
     (let ext = extensionFor lower lang
      in if \<not> runtimeAvailable then None
         else Some \<lparr>problemId = pid, problemName = pname, language = lang,
                    extension = received ext, code = src\<rparr>)"

record commit_body =
  body_message :: "string option"
  html_url :: "string option"

definition commitRequest ::
    "string \<Rightarrow> RepoConfig \<Rightarrow> string \<Rightarrow> string \<Rightarrow> string \<Rightarrow> request" where
  "commitRequest token repoConfig filePath commitMessage base64Content =
     \<lparr>req_method = ''PUT'',
      req_url = ''https://api.github.com/repos/'' @ owner repoConfig @ ''/'' @ repo repoConfig
                  @ ''/contents/'' @ filePath,
      req_headers = [(''Authorization'', ''Bearer '' @ token),
                     (''Content-Type'', ''application/json'')],
      req_body = [(''message'', commitMessage), (''content'', base64Content),
                  (''branch'', if branch repoConfig \<noteq> '''' then branch repoConfig else ''main'')]\<rparr>"

text \<open>
  \<open>commitSolutionToGithub\<close>: \<open>now\<close> is the reading of \<open>Date.now()\<close>, \<open>out\<close> what
  the contents endpoint does. The stored repository target is never \<open>null\<close> (the store
  falls back to its default), so of the guard
  \<open>!token || !repoConfig || !repoConfig.owner || !repoConfig.repo\<close> the three string
  tests remain. The outer \<open>catch\<close> rethrows.
\<close>

definition commitSolutionToGithub ::
    "int \<Rightarrow> commit_body fetched \<Rightarrow> solution_data \<Rightarrow> storage
       \<Rightarrow> (exn + commit_body) \<times> effect list" where
  "commitSolutionToGithub now out data s =
     (let token = authTokenStorage_get s;
          repoConfig = repoConfigStorage_get s
      in if token = '''' \<or> owner repoConfig = '''' \<or> repo repoConfig = ''''
         then (Inl (Error ''Missing GitHub configuration''), [])
         else
           let ext = (if orEmpty (extension data) \<noteq> '''' then orEmpty (extension data)
                      else ''txt'');
               timestamp = now;
               fileName = problemId data @ ''_'' @ showInt timestamp @ ''.'' @ ext;
               filePath = (if path repoConfig \<noteq> ''''
                           then (if endsWith (path repoConfig) ''/'' then path repoConfig
                                 else path repoConfig @ ''/'') @ fileName
                           else fileName);
               commitMessage = ''Solution for '' @ problemId data @ '': '' @ problemName data
                                 @ '' ('' @ language data @ '')'';
               base64Content = btoa (code data);
               req = commitRequest token repoConfig filePath commitMessage base64Content
           in (case out of
                 Inl e \<Rightarrow> (Inl e, [Fetch req])
               | Inr res \<Rightarrow>
                   if \<not> ok res
                   then (Inl (Error (''GitHub API error: '' @ render (body_message (json res)))),
                         [Fetch req])
                   else (Inr (json res), [Fetch req])))"

text \<open>The scenario of the spec: target \<open>u/r\<close> with path \<open>sol\<close>, a stored credential.\<close>

definition scenarioStorage :: storage where
  "scenarioStorage =
     \<lparr>github_auth_token = ''cred'',
      github_selected_repo = \<lparr>owner = ''u'', repo = ''r'', branch = '''', path = ''sol''\<rparr>,
      github_device_code = None\<rparr>"

definition createdAnswer :: "commit_body fetched" where
  "createdAnswer =
     Inr (Response 201 \<lparr>body_message = None,
                         html_url = Some ''https://github.com/u/r/blob/main/sol/two-sum_1000.py''\<rparr>)"

section \<open>Submission watcher (content script)\<close>

text \<open>
  Of the page the watcher reads the path of its URL and the \<open>data-submission-id\<close>
  attribute of the first element that has one (absent when no element has it).
\<close>

record page =
  pathname :: string
  dataSubmissionId :: "string option"

text \<open>
  \<open>pathname.match(/\/submissions\/(\d+)/)\<close>: the leftmost place where
  \<open>/submissions/\<close> is followed by a digit, and the longest run of digits there.
\<close>

fun matchSubmissions :: "string \<Rightarrow> string option" where
  "matchSubmissions [] = None"
| "matchSubmissions (c # cs) =
     (if take 13 (c # cs) = ''/submissions/'' \<and> takeWhile isDigit (drop 13 (c # cs)) \<noteq> []
      then Some (takeWhile isDigit (drop 13 (c # cs)))
      else matchSubmissions cs)"

definition extractSubmissionIdFromPage :: "page \<Rightarrow> string option" where
  "extractSubmissionIdFromPage pg =
     (case matchSubmissions (pathname pg) of
        Some submissionId \<Rightarrow> Some submissionId
      | None \<Rightarrow>
          (case dataSubmissionId pg of
             Some attr \<Rightarrow> Some attr
           | None \<Rightarrow> None))"













definition problemPage :: page where
  "problemPage = \<lparr>pathname = ''/problems/two-sum/description/'', dataSubmissionId = None\<rparr>"



section \<open>Repository list (background/github-api.ts)\<close>

record repo_entry =
  repo_name :: string
  full_name :: string

definition reposRequest :: "string \<Rightarrow> request" where
  "reposRequest token =
     \<lparr>req_method = ''GET'',
      req_url = ''https://api.github.com/user/repos?sort=updated&per_page=100'',
      req_headers = [(''Authorization'', ''Bearer '' @ token),
                     (''Accept'', ''application/vnd.github.v3+json'')],
      req_body = []\<rparr>"

definition fetchUserRepositories ::
    "repo_entry list fetched \<Rightarrow> storage \<Rightarrow> (exn + repo_entry list) \<times> effect list" where
  "fetchUserRepositories out s =
     (let token = authTokenStorage_get s
      in if token = '''' then (Inl (Error ''Not authenticated with GitHub''), [])
         else
           (case out of
              Inl e \<Rightarrow> (Inl e, [Fetch (reposRequest token)])
            | Inr res \<Rightarrow>
                if \<not> ok res
                then (Inl (Error (''Failed to fetch repositories: '' @ showNat (status res))),
                      [Fetch (reposRequest token)])
                else (Inr (json res), [Fetch (reposRequest token)])))"

section \<open>Command router (chrome-extension/src/background/index.ts)\<close>

text \<open>
  A message carries its \<open>action\<close> and the fields its sender sets for that action; the
  \<open>data\<close> of a message may be missing. A response is the object passed to
  \<open>sendResponse\<close>, as the list of its fields. What one handler does is modelled as one
  uninterrupted run: whether the listener returned \<open>true\<close>, the responses sent, the
  store afterwards, the effects performed, and the device code and interval of the
  background poll when one is started. A listener that throws instead of returning is
  \<open>Inl\<close> of what it threw.
\<close>

record message =
  action :: string
  msg_path :: string
  msg_config :: RepoConfig
  msg_data :: "solution_data option"

datatype jvalue =
    JBool bool
  | JString string
  | JUser user_info
  | JRepos "repo_entry list"
  | JCommit commit_body

type_synonym response_obj = "(string \<times> jvalue) list"

record env =
  isActiveNow1 :: int
  isActiveNow2 :: int
  isActiveNow3 :: int
  startNow :: int
  commitNow :: int
  deviceCodeAnswer :: "DeviceCodeInfo fetched"
  validateAnswer :: "user_info fetched"
  userAnswer :: "user_info fetched"
  reposAnswer :: "repo_entry list fetched"
  putAnswer :: "commit_body fetched"

record handled =
  returned :: bool
  responses :: "response_obj list"
  stored :: storage
  performed :: "effect list"
  polling :: "(string \<times> int) option"

definition failure :: "string \<Rightarrow> response_obj" where
  "failure msg = [(''success'', JBool False), (''error'', JString msg)]"

text \<open>
  \<open>handleGithubLogin\<close>. Reading \<open>user_code\<close> of a session that is gone throws a
  \<open>TypeError\<close> inside the \<open>try\<close> block, which the \<open>catch\<close> turns into a failure
  response.
\<close>

definition handleGithubLogin :: "env \<Rightarrow> message \<Rightarrow> storage \<Rightarrow> handled" where
  "handleGithubLogin env msg s =
     (case githubDeviceCodeStorage_isActive (isActiveNow1 env) (isActiveNow2 env)
             (isActiveNow3 env) s of
        (isActive, s1) \<Rightarrow>
          if isActive then
            (case deviceCodeStorage_get s1 of
               Some deviceInfo \<Rightarrow>
                 \<lparr>returned = True,
                  responses = [[(''success'', JBool True), (''alreadyInProgress'', JBool True),
                                (''deviceCode'', JString (user_code deviceInfo)),
                                (''verificationUrl'', JString (verification_uri deviceInfo))]],
                  stored = s1, performed = [], polling = None\<rparr>
             | None \<Rightarrow>
                 \<lparr>returned = True,
                  responses = [failure ''Cannot read properties of null (reading user_code)''],
                  stored = s1, performed = [], polling = None\<rparr>)
          else
            (case startDeviceFlow (startNow env) (deviceCodeAnswer env) s1 of
               (Inl e, s2, tr) \<Rightarrow>
                 \<lparr>returned = True, responses = [failure (message e)],
                  stored = s2, performed = tr, polling = None\<rparr>
             | (Inr deviceInfo, s2, tr) \<Rightarrow>
                 \<lparr>returned = True,
                  responses = [[(''success'', JBool True),
                                (''deviceCode'', JString (user_code deviceInfo)),
                                (''verificationUrl'', JString (verification_uri deviceInfo))]],
                  stored = s2, performed = tr,
                  polling = Some (device_code deviceInfo, interval deviceInfo)\<rparr>))"

text \<open>
  What the handler chains to the background poll: the token is stored and the session
  cleared when the poll returns a token, the session is cleared when it fails.
\<close>

definition loginPollSettled :: "exn + string \<Rightarrow> storage \<Rightarrow> storage" where
  "loginPollSettled r s =
     (case r of
        Inr token \<Rightarrow> githubDeviceCodeStorage_clear (authTokenStorage_set token s)
      | Inl e \<Rightarrow> githubDeviceCodeStorage_clear s)"

definition handleOpenVerificationPage :: "env \<Rightarrow> message \<Rightarrow> storage \<Rightarrow> handled" where
  "handleOpenVerificationPage env msg s =
     (case deviceCodeStorage_get s of
        Some deviceInfo \<Rightarrow>
          if verification_uri deviceInfo \<noteq> ''''
          then \<lparr>returned = True, responses = [[(''success'', JBool True)]], stored = s,
                performed = [OpenTab (verification_uri deviceInfo)], polling = None\<rparr>
          else \<lparr>returned = True, responses = [failure ''No active device flow found''],
                stored = s, performed = [], polling = None\<rparr>
      | None \<Rightarrow>
          \<lparr>returned = True, responses = [failure ''No active device flow found''],
           stored = s, performed = [], polling = None\<rparr>)"

definition handleCheckDeviceFlow :: "env \<Rightarrow> message \<Rightarrow> storage \<Rightarrow> handled" where
  "handleCheckDeviceFlow env msg s =
     (case githubDeviceCodeStorage_isActive (isActiveNow1 env) (isActiveNow2 env)
             (isActiveNow3 env) s of
        (isActive, s1) \<Rightarrow>
          if isActive then
            (case deviceCodeStorage_get s1 of
               Some deviceInfo \<Rightarrow>
                 \<lparr>returned = True,
                  responses = [[(''inProgress'', JBool True),
                                (''deviceCode'', JString (user_code deviceInfo)),
                                (''verificationUrl'', JString (verification_uri deviceInfo))]],
                  stored = s1, performed = [], polling = None\<rparr>
             | None \<Rightarrow>
                 \<lparr>returned = True,
                  responses = [[(''inProgress'', JBool False),
                                (''error'',
                                 JString ''Cannot read properties of null (reading user_code)'')]],
                  stored = s1, performed = [], polling = None\<rparr>)
          else
            \<lparr>returned = True, responses = [[(''inProgress'', JBool False)]],
             stored = s1, performed = [], polling = None\<rparr>)"

definition handleCancelDeviceFlow :: "env \<Rightarrow> message \<Rightarrow> storage \<Rightarrow> handled" where
  "handleCancelDeviceFlow env msg s =
     \<lparr>returned = True, responses = [[(''success'', JBool True)]],
      stored = githubDeviceCodeStorage_clear s, performed = [], polling = None\<rparr>"

definition handleCheckAuthStatus :: "env \<Rightarrow> message \<Rightarrow> storage \<Rightarrow> handled" where
  "handleCheckAuthStatus env msg s =
     (case isAuthenticated (validateAnswer env) s of
        (isLoggedIn, tr1) \<Rightarrow>
          if isLoggedIn then
            (let token = authTokenStorage_get s
             in case getGithubUserInfo (userAnswer env) token of
                  (Inr userInfo, tr2) \<Rightarrow>
                    \<lparr>returned = True,
                     responses = [[(''isLoggedIn'', JBool isLoggedIn), (''user'', JUser userInfo)]],
                     stored = s, performed = tr1 @ tr2, polling = None\<rparr>
                | (Inl e, tr2) \<Rightarrow>
                    \<lparr>returned = True,
                     responses = [[(''isLoggedIn'', JBool False), (''error'', JString (message e))]],
                     stored = s, performed = tr1 @ tr2, polling = None\<rparr>)
          else
            \<lparr>returned = True, responses = [[(''isLoggedIn'', JBool isLoggedIn)]],
             stored = s, performed = tr1, polling = None\<rparr>)"

definition handleLogout :: "env \<Rightarrow> message \<Rightarrow> storage \<Rightarrow> handled" where
  "handleLogout env msg s =
     \<lparr>returned = True, responses = [[(''success'', JBool True)]],
      stored = signOut s, performed = [], polling = None\<rparr>"

definition handleFetchRepositories :: "env \<Rightarrow> message \<Rightarrow> storage \<Rightarrow> handled" where
  "handleFetchRepositories env msg s =
     (let token = authTokenStorage_get s
      in if token = ''''
         then \<lparr>returned = True, responses = [failure ''Not authenticated with GitHub''],
               stored = s, performed = [], polling = None\<rparr>
         else
           (case fetchUserRepositories (reposAnswer env) s of
              (Inr repositories, tr) \<Rightarrow>
                \<lparr>returned = True,
                 responses = [[(''success'', JBool True), (''repositories'', JRepos repositories)]],
                 stored = s, performed = tr, polling = None\<rparr>
            | (Inl e, tr) \<Rightarrow>
                \<lparr>returned = True, responses = [failure (message e)],
                 stored = s, performed = tr, polling = None\<rparr>))"

definition handleUpdateRepoPath :: "env \<Rightarrow> message \<Rightarrow> storage \<Rightarrow> handled" where
  "handleUpdateRepoPath env msg s =
     \<lparr>returned = True, responses = [[(''success'', JBool True)]],
      stored = githubRepoStorage_updatePath (msg_path msg) s, performed = [], polling = None\<rparr>"

definition handleSaveRepoConfig :: "env \<Rightarrow> message \<Rightarrow> storage \<Rightarrow> handled" where
  "handleSaveRepoConfig env msg s =
     \<lparr>returned = True, responses = [[(''success'', JBool True)]],
      stored = repoConfigStorage_set (msg_config msg) s, performed = [], polling = None\<rparr>"

text \<open>
  \<open>handleSubmitLeetCodeSolution\<close> logs \<open>message.data.problemId\<close> before it calls
  \<open>commitSolutionToGithub\<close>: on a message without \<open>data\<close> that read throws a
  \<open>TypeError\<close> while the listener is still running, outside every promise.
\<close>

definition handleSubmitLeetCodeSolution :: "env \<Rightarrow> message \<Rightarrow> storage \<Rightarrow> exn + handled" where
  "handleSubmitLeetCodeSolution env msg s =
     (case msg_data msg of
        None \<Rightarrow> Inl (Error ''Cannot read properties of undefined (reading 'problemId')'')
      | Some data \<Rightarrow>
          (case commitSolutionToGithub (commitNow env) (putAnswer env) data s of
             (Inr result, tr) \<Rightarrow>
               Inr \<lparr>returned = True,
                    responses = [[(''success'', JBool True), (''result'', JCommit result)]],
                    stored = s, performed = tr, polling = None\<rparr>
           | (Inl e, tr) \<Rightarrow>
               Inr \<lparr>returned = True, responses = [failure (message e)],
                    stored = s, performed = tr, polling = None\<rparr>))"

text \<open>
  The other nine handlers read nothing of the message before their promise chain
  starts, and return \<open>true\<close>: as entries of the handler table they never throw.
\<close>

definition returning ::
    "(env \<Rightarrow> message \<Rightarrow> storage \<Rightarrow> handled) \<Rightarrow> env \<Rightarrow> message \<Rightarrow> storage \<Rightarrow> exn + handled" where
  "returning handler env msg s = Inr (handler env msg s)"

definition handlers ::
    "(string \<times> (env \<Rightarrow> message \<Rightarrow> storage \<Rightarrow> exn + handled)) list" where
  "handlers =
     [(''github-login'', returning handleGithubLogin),
      (''check-device-flow'', returning handleCheckDeviceFlow),
      (''cancel-device-flow'', returning handleCancelDeviceFlow),
      (''check-auth-status'', returning handleCheckAuthStatus),
      (''github-logout'', returning handleLogout),
      (''open-verification-page'', returning handleOpenVerificationPage),
      (''fetch-github-repos'', returning handleFetchRepositories),
      (''save-repo-config'', returning handleSaveRepoConfig),
      (''update-repo-path'', returning handleUpdateRepoPath),
      (''submit-leetcode-solution'', handleSubmitLeetCodeSolution)]"

text \<open>
  The listener of \<open>setupMessageHandlers\<close>: \<open>handlers[message.action]\<close> is called
  when it is truthy, with the message and \<open>sendResponse\<close> and no \<open>this\<close> (the
  background script is a module, so strict). An action that names no handler and
  nothing inherited makes the listener return \<open>false\<close> with no response. Under
  \<open>__proto__\<close> the table finds the prototype object, and calling it throws. Of the
  inherited functions \<open>constructor\<close> returns the message and \<open>toString\<close> a string,
  neither sending a response; the others throw on the missing \<open>this\<close>.
\<close>

definition onMessage :: "env \<Rightarrow> message \<Rightarrow> storage \<Rightarrow> exn + handled" where
  "onMessage env msg s =
     (case getProperty handlers (action msg) of
        Own handler \<Rightarrow> handler env msg s
      | InheritedObject \<Rightarrow> Inl (Error ''handler is not a function'')
      | InheritedFunction \<Rightarrow>
          if action msg = ''constructor'' \<or> action msg = ''toString''
          then Inr \<lparr>returned = False, responses = [], stored = s, performed = [],
                    polling = None\<rparr>
          else Inl (Error ''Cannot convert undefined or null to object'')
      | Missing \<Rightarrow>
          Inr \<lparr>returned = False, responses = [], stored = s, performed = [],
               polling = None\<rparr>)"

text \<open>A run of login requests, one after the other, each on the store the last one left.\<close>

fun loginCalls :: "env list \<Rightarrow> message \<Rightarrow> storage \<Rightarrow> handled list" where
  "loginCalls [] msg s = []"
| "loginCalls (env # envs) msg s =
     handleGithubLogin env msg s # loginCalls envs msg (stored (handleGithubLogin env msg s))"

text \<open>
  The two response shapes of the spec: a boolean \<open>success\<close>, and with a false
  \<open>success\<close> a string \<open>error\<close>.
\<close>

definition successShaped :: "response_obj \<Rightarrow> bool" where
  "successShaped r =
     (case map_of r ''success'' of
        Some (JBool b) \<Rightarrow>
          (if b then True
           else (case map_of r ''error'' of Some (JString e) \<Rightarrow> True | _ \<Rightarrow> False))
      | _ \<Rightarrow> False)"

text \<open>An environment and messages used in the examples.\<close>

definition exampleEnv :: env where
  "exampleEnv =
     \<lparr>isActiveNow1 = 2000, isActiveNow2 = 2000, isActiveNow3 = 2000, startNow = 2000,
      commitNow = 1000,
      deviceCodeAnswer = Inr (Response 200 (exampleSession\<lparr>expires_at := None\<rparr>)),
      validateAnswer = Inl (Error ''Failed to fetch''),
      userAnswer = Inl (Error ''Failed to fetch''),
      reposAnswer = Inl (Error ''Failed to fetch''),
      putAnswer = createdAnswer\<rparr>"

definition exampleMessage :: "string \<Rightarrow> message" where
  "exampleMessage a =
     \<lparr>action = a, msg_path = ''sol'', msg_config = defaultRepoConfig,
      msg_data = Some \<lparr>problemId = ''two-sum'', problemName = ''Two Sum'',
                       language = ''python'', extension = Some ''py'', code = ''x=1''\<rparr>\<rparr>"

text \<open>
  The shape the other two handlers use: a boolean under the handler's own field name,
  and no \<open>success\<close> field.
\<close>

definition flagShaped :: "string \<Rightarrow> response_obj \<Rightarrow> bool" where
  "flagShaped field r =
     ((case map_of r field of Some (JBool b) \<Rightarrow> True | _ \<Rightarrow> False)
      \<and> map_of r ''success'' = None)"

section \<open>Properties of the store\<close>

lemmas storage_ops =
  authTokenStorage_get_def authTokenStorage_set_def
  repoConfigStorage_get_def repoConfigStorage_set_def repoConfigStorage_setWith_def
  deviceCodeStorage_get_def deviceCodeStorage_set_def

text \<open>
  When the \<open>expires_at\<close> test fails, what \<open>isActive\<close> does is decided by
  \<open>expires_in\<close> alone: the session is dropped exactly when \<open>expires_in\<close> is zero or
  the recomputed timestamp is not in the future.
\<close>

lemma isActive_expired_cases:
  assumes "deviceCodeStorage_get s = Some info" and "expires_at info = Some e" and "e \<le> now1"
  shows "githubDeviceCodeStorage_isActive now1 now2 now3 s =
           (if expires_in info \<noteq> 0 \<and> now2 + expires_in info * 1000 > now3
            then (True, deviceCodeStorage_set
                          (Some (info\<lparr>expires_at := Some (now2 + expires_in info * 1000)\<rparr>)) s)
            else (False, deviceCodeStorage_set None s))"
  using assms by (simp add: githubDeviceCodeStorage_isActive_def)

text \<open>
  C1 (the active-flow check returns false and clears every session whose \<open>expires_at\<close>
  is at or before the current time). The code does not do this for a session written by
  \<open>startDeviceFlow\<close>: such a session carries the server's positive \<open>expires_in\<close>, so
  once \<open>expires_at\<close> has passed the fallback branch recomputes
  \<open>expires_at = now + expires_in * 1000\<close>, stores it and answers true. With the
  example session (\<open>expires_at = 1000\<close>, \<open>expires_in = 900\<close>) and the clock at 2000
  the call returns true and the stored session now expires at 902000.
\<close>

theorem isActive_expired_session_revived:
  "githubDeviceCodeStorage_isActive 2000 2000 2000
       (initialStorage\<lparr>github_device_code := Some exampleSession\<rparr>)
     = (True, initialStorage\<lparr>github_device_code :=
                 Some (exampleSession\<lparr>expires_at := Some 902000\<rparr>)\<rparr>)"
  by (simp add: githubDeviceCodeStorage_isActive_def storage_ops exampleSession_def)

text \<open>
  C10 (\<open>updatePath\<close> sets the path of the stored repository target to \<open>p\<close> and leaves
  its owner, repo and branch, and the other two stored records, as they were; the
  \<open>update-repo-path\<close> handler stores exactly what \<open>updatePath\<close> gives for the
  message's path).
\<close>

theorem updatePath_changes_only_path:
  "path (repoConfigStorage_get (githubRepoStorage_updatePath p s)) = p
   \<and> owner (repoConfigStorage_get (githubRepoStorage_updatePath p s)) = owner (repoConfigStorage_get s)
   \<and> repo (repoConfigStorage_get (githubRepoStorage_updatePath p s)) = repo (repoConfigStorage_get s)
   \<and> branch (repoConfigStorage_get (githubRepoStorage_updatePath p s)) = branch (repoConfigStorage_get s)
   \<and> authTokenStorage_get (githubRepoStorage_updatePath p s) = authTokenStorage_get s
   \<and> deviceCodeStorage_get (githubRepoStorage_updatePath p s) = deviceCodeStorage_get s
   \<and> stored (handleUpdateRepoPath env msg s) = githubRepoStorage_updatePath (msg_path msg) s"
  by (simp add: githubRepoStorage_updatePath_def handleUpdateRepoPath_def storage_ops)

section \<open>Properties of the device flow\<close>

lemma pollLoop_retry:
  assumes "a < maxAttempts" and "retried (net (Suc a))"
  shows "pollLoop net dc i a tr = pollLoop net dc i (Suc a) (tr @ retryRound dc i)"
  using assms
  by (subst pollLoop.simps) (auto simp: retried_def retryRound_def split: sum.splits)

lemma pollLoop_stop:
  assumes "a < maxAttempts" and "\<not> retried (net (Suc a))"
  shows "pollLoop net dc i a tr = (terminal (net (Suc a)), tr @ [Fetch (tokenRequest dc)])"
  using assms
  by (subst pollLoop.simps) (auto simp: retried_def terminal_def split: sum.splits)

lemma pollLoop_exhausted:
  "pollLoop net dc i maxAttempts tr = (Inl (Error ''Authentication timed out. Please try again.''), tr)"
  by (subst pollLoop.simps) simp

lemma pollLoop_retries:
  assumes "a + n \<le> maxAttempts" and "\<And>j. a < j \<Longrightarrow> j \<le> a + n \<Longrightarrow> retried (net j)"
  shows "pollLoop net dc i a tr =
           pollLoop net dc i (a + n) (tr @ concat (replicate n (retryRound dc i)))"
  using assms
proof (induction n arbitrary: a tr)
  case 0
  then show ?case by simp
next
  case (Suc n)
  have "pollLoop net dc i a tr = pollLoop net dc i (Suc a) (tr @ retryRound dc i)"
    using Suc.prems by (intro pollLoop_retry) auto
  also have "\<dots> = pollLoop net dc i (Suc a + n)
                      ((tr @ retryRound dc i) @ concat (replicate n (retryRound dc i)))"
    using Suc.prems by (intro Suc.IH) auto
  finally show ?case by simp
qed

lemma pollLoop_done:
  assumes "\<not> a < maxAttempts"
  shows "pollLoop net dc i a tr =
           (Inl (Error ''Authentication timed out. Please try again.''), tr)"
  using assms by (subst pollLoop.simps) simp

lemma fetches_append: "fetches (xs @ ys) = fetches xs @ fetches ys"
  by (simp add: fetches_def)

lemma slept_append: "slept (xs @ ys) = slept xs + slept ys"
  by (simp add: slept_def)

lemma fetches_retryRound: "fetches (retryRound dc i) = [tokenRequest dc]"
  by (simp add: fetches_def retryRound_def)

lemma slept_retryRound: "slept (retryRound dc i) = max 0 (i * 1000)"
  by (simp add: slept_def retryRound_def)

lemma pollLoop_fetch_bound:
  "length (fetches (snd (pollLoop net dc i a tr))) \<le> length (fetches tr) + (maxAttempts - a)"
proof (induction "maxAttempts - a" arbitrary: a tr)
  case 0
  then have "\<not> a < maxAttempts" by simp
  then show ?case by (simp add: pollLoop_done)
next
  case (Suc m)
  then have lt: "a < maxAttempts" by simp
  show ?case
  proof (cases "retried (net (Suc a))")
    case True
    have "m = maxAttempts - Suc a" using Suc.hyps(2) by simp
    from Suc.hyps(1) [OF this, of "tr @ retryRound dc i"] lt True
    show ?thesis by (simp add: pollLoop_retry fetches_append fetches_retryRound)
  next
    case False
    with lt show ?thesis by (simp add: pollLoop_stop fetches_append fetches_def)
  qed
qed

lemma pollLoop_slept_bound:
  "slept (snd (pollLoop net dc i a tr))
     \<le> slept tr + int (maxAttempts - a) * max 0 (i * 1000)"
proof (induction "maxAttempts - a" arbitrary: a tr)
  case 0
  then have "\<not> a < maxAttempts" by simp
  then show ?case by (simp add: pollLoop_done)
next
  case (Suc m)
  then have lt: "a < maxAttempts" by simp
  show ?case
  proof (cases "retried (net (Suc a))")
    case True
    have m: "m = maxAttempts - Suc a" using Suc.hyps(2) by simp
    have "int (maxAttempts - a) = int (maxAttempts - Suc a) + 1" using lt by simp
    with Suc.hyps(1) [OF m, of "tr @ retryRound dc i"] lt True
    show ?thesis by (simp add: pollLoop_retry slept_append slept_retryRound algebra_simps)
  next
    case False
    have "0 \<le> int (maxAttempts - a) * max 0 (i * 1000)" by simp
    with False lt show ?thesis by (simp add: pollLoop_stop slept_append slept_def)
  qed
qed


lemma pollLoop_first_terminal:
  assumes "0 < k" and "k \<le> maxAttempts"
    and "\<And>j. 0 < j \<Longrightarrow> j < k \<Longrightarrow> retried (net j)"
    and "\<not> retried (net k)"
  shows "pollForAccessToken net dc i =
           (terminal (net k),
            concat (replicate (k - 1) (retryRound dc i)) @ [Fetch (tokenRequest dc)])"
proof -
  have "pollLoop net dc i 0 [] =
          pollLoop net dc i (0 + (k - 1)) ([] @ concat (replicate (k - 1) (retryRound dc i)))"
    using assms by (intro pollLoop_retries) auto
  moreover have "k - 1 < maxAttempts" and "Suc (k - 1) = k"
    using assms by auto
  ultimately show ?thesis
    using assms(4) pollLoop_stop [of "k - 1" net dc i]
    by (simp add: pollForAccessToken_def)
qed

lemma pollLoop_all_retried:
  assumes "\<And>j. 0 < j \<Longrightarrow> j \<le> maxAttempts \<Longrightarrow> retried (net j)"
  shows "pollForAccessToken net dc i =
           (Inl (Error ''Authentication timed out. Please try again.''),
            concat (replicate maxAttempts (retryRound dc i)))"
proof -
  have "pollLoop net dc i 0 [] =
          pollLoop net dc i (0 + maxAttempts)
            ([] @ concat (replicate maxAttempts (retryRound dc i)))"
    using assms by (intro pollLoop_retries) auto
  then show ?thesis
    by (simp add: pollForAccessToken_def pollLoop_done)
qed

lemma retried_pendingResponse: "retried pendingResponse"
  by (simp add: retried_def pendingResponse_def ok_def orEmpty_def)

lemma not_retried_tokenResponse: "t \<noteq> [] \<Longrightarrow> \<not> retried (tokenResponse t)"
  by (simp add: retried_def tokenResponse_def ok_def orEmpty_def)

lemma fetches_rounds: "length (fetches (concat (replicate n (retryRound dc i)))) = n"
  by (induction n) (simp_all add: fetches_append fetches_retryRound, simp add: fetches_def)

lemma slept_rounds: "slept (concat (replicate n (retryRound dc i))) = int n * max 0 (i * 1000)"
  by (induction n) (simp_all add: slept_append slept_retryRound algebra_simps, simp add: slept_def)

text \<open>
  The time a run takes is the time of its waits and the time of its requests, numbered
  in the order they are made.
\<close>

lemma elapsedFrom_split:
  "elapsedFrom took k tr =
     slept tr + (\<Sum>j = Suc k..k + length (fetches tr). int (took j))"
proof (induction tr arbitrary: k)
  case Nil
  then show ?case by (simp add: slept_def fetches_def)
next
  case (Cons ev tr)
  show ?case
  proof (cases ev)
    case (Fetch r)
    have "(\<Sum>j = Suc k..Suc k + length (fetches tr). int (took j)) =
            int (took (Suc k)) + (\<Sum>j = Suc (Suc k)..Suc k + length (fetches tr). int (took j))"
      by (rule sum.atLeast_Suc_atMost) simp
    with Fetch Cons.IH [of "Suc k"] show ?thesis
      by (simp add: slept_def fetches_def)
  next
    case (Sleep ms)
    with Cons.IH [of k] show ?thesis by (simp add: slept_def fetches_def)
  next
    case (OpenTab url)
    with Cons.IH [of k] show ?thesis by (simp add: slept_def fetches_def)
  qed
qed

lemma elapsed_split:
  "elapsed took tr = slept tr + (\<Sum>j = 1..length (fetches tr). int (took j))"
  using elapsedFrom_split [of took 0 tr] by (simp add: elapsed_def)

lemma requests_time_mono:
  fixes took :: "nat \<Rightarrow> nat"
  assumes "n \<le> m"
  shows "(\<Sum>j = 1..n. int (took j)) \<le> (\<Sum>j = 1..m. int (took j))"
  using assms by (intro sum_mono2) auto

text \<open>
  C6 (the poll terminates within \<open>maxAttempts * interval\<close> wall-clock time). The bound
  counts the timed waits only. When every answer is \<open>authorization_pending\<close> the 60
  waits of 5 seconds already take the whole of \<open>60 * 5000\<close> milliseconds, and with each
  request taking one millisecond the run lasts 300060.
\<close>

theorem pollForAccessToken_wall_clock_counterexample:
  "elapsed (\<lambda>k. 1) (snd (pollForAccessToken (\<lambda>k. pendingResponse) ''D1'' 5)) = 300060
   \<and> int maxAttempts * (5 * 1000) = 300000"
proof -
  have "pollForAccessToken (\<lambda>k. pendingResponse) ''D1'' 5 =
          (Inl (Error ''Authentication timed out. Please try again.''),
           concat (replicate maxAttempts (retryRound ''D1'' 5)))"
    by (rule pollLoop_all_retried) (rule retried_pendingResponse)
  then show ?thesis
    by (simp add: elapsed_split slept_rounds fetches_rounds maxAttempts_def)
qed

text \<open>
  C6, as the code has it: for every device code and interval the polling loop makes at
  most 60 requests, and the time it spends in its timed waits is at most
  \<open>maxAttempts * interval\<close> seconds. The requests have no time limit of their own, so
  the wall-clock time of the poll is the time of the waits plus the time the requests
  take, at most that of 60 waits and 60 requests. The poll ends at the first answer that
  is not retried, with the token when the answer carries one and with the error
  otherwise; when all 60 answers are retried it fails with the authentication-timeout
  error. Times are in milliseconds, as \<open>setTimeout\<close> takes them.
\<close>

theorem pollForAccessToken_bounded:
  "length (fetches (snd (pollForAccessToken net dc i))) \<le> maxAttempts
   \<and> slept (snd (pollForAccessToken net dc i)) \<le> int maxAttempts * max 0 (i * 1000)
   \<and> elapsed took (snd (pollForAccessToken net dc i)) =
        slept (snd (pollForAccessToken net dc i))
        + (\<Sum>j = 1..length (fetches (snd (pollForAccessToken net dc i))). int (took j))
   \<and> elapsed took (snd (pollForAccessToken net dc i)) \<le>
        int maxAttempts * max 0 (i * 1000) + (\<Sum>j = 1..maxAttempts. int (took j))
   \<and> (\<forall>k. 0 < k \<and> k \<le> maxAttempts \<and> (\<forall>j. 0 < j \<and> j < k \<longrightarrow> retried (net j))
            \<and> \<not> retried (net k) \<longrightarrow>
          pollForAccessToken net dc i =
            (terminal (net k),
             concat (replicate (k - 1) (retryRound dc i)) @ [Fetch (tokenRequest dc)]))
   \<and> ((\<forall>j. 0 < j \<and> j \<le> maxAttempts \<longrightarrow> retried (net j)) \<longrightarrow>
          pollForAccessToken net dc i =
            (Inl (Error ''Authentication timed out. Please try again.''),
             concat (replicate maxAttempts (retryRound dc i))))"
proof -
  let ?tr = "snd (pollForAccessToken net dc i)"
  have count: "length (fetches ?tr) \<le> maxAttempts"
    using pollLoop_fetch_bound [of net dc i 0 "[]"]
    by (simp add: pollForAccessToken_def fetches_def)
  have waits: "slept ?tr \<le> int maxAttempts * max 0 (i * 1000)"
    using pollLoop_slept_bound [of net dc i 0 "[]"]
    by (simp add: pollForAccessToken_def slept_def)
  have clock: "elapsed took ?tr = slept ?tr + (\<Sum>j = 1..length (fetches ?tr). int (took j))"
    by (rule elapsed_split)
  have "(\<Sum>j = 1..length (fetches ?tr). int (took j)) \<le> (\<Sum>j = 1..maxAttempts. int (took j))"
    using count by (rule requests_time_mono)
  with clock waits
  have total: "elapsed took ?tr \<le>
      int maxAttempts * max 0 (i * 1000) + (\<Sum>j = 1..maxAttempts. int (took j))"
    by linarith
  have first: "\<forall>k. 0 < k \<and> k \<le> maxAttempts \<and> (\<forall>j. 0 < j \<and> j < k \<longrightarrow> retried (net j))
            \<and> \<not> retried (net k) \<longrightarrow>
          pollForAccessToken net dc i =
            (terminal (net k),
             concat (replicate (k - 1) (retryRound dc i)) @ [Fetch (tokenRequest dc)])"
  proof (intro allI impI)
    fix k
    assume "0 < k \<and> k \<le> maxAttempts \<and> (\<forall>j. 0 < j \<and> j < k \<longrightarrow> retried (net j))
              \<and> \<not> retried (net k)"
    then show "pollForAccessToken net dc i =
            (terminal (net k),
             concat (replicate (k - 1) (retryRound dc i)) @ [Fetch (tokenRequest dc)])"
      by (intro pollLoop_first_terminal) auto
  qed
  have all: "(\<forall>j. 0 < j \<and> j \<le> maxAttempts \<longrightarrow> retried (net j)) \<longrightarrow>
          pollForAccessToken net dc i =
            (Inl (Error ''Authentication timed out. Please try again.''),
             concat (replicate maxAttempts (retryRound dc i)))"
  proof
    assume "\<forall>j. 0 < j \<and> j \<le> maxAttempts \<longrightarrow> retried (net j)"
    then show "pollForAccessToken net dc i =
            (Inl (Error ''Authentication timed out. Please try again.''),
             concat (replicate maxAttempts (retryRound dc i)))"
      by (intro pollLoop_all_retried) auto
  qed
  from count waits clock total first all show ?thesis by (intro conjI)
qed

theorem pollForAccessToken_bounded_witness:
  "pollForAccessToken (\<lambda>k. if k < 3 then pendingResponse else tokenResponse ''tok'') ''D1'' 5 =
     (Inr ''tok'',
      [Fetch (tokenRequest ''D1''), Sleep 5000, Fetch (tokenRequest ''D1''), Sleep 5000,
       Fetch (tokenRequest ''D1'')])
   \<and> pollForAccessToken (\<lambda>k. pendingResponse) ''D1'' 5 =
       (Inl (Error ''Authentication timed out. Please try again.''),
        concat (replicate 60 [Fetch (tokenRequest ''D1''), Sleep 5000]))
   \<and> elapsed (\<lambda>k. 200)
        (snd (pollForAccessToken (\<lambda>k. if k < 3 then pendingResponse else tokenResponse ''tok'')
                ''D1'' 5)) = 10600"
proof -
  let ?net = "\<lambda>k::nat. if k < 3 then pendingResponse else tokenResponse ''tok''"
  have "0 < (3::nat) \<and> 3 \<le> maxAttempts \<and> (\<forall>j. 0 < j \<and> j < 3 \<longrightarrow> retried (?net j))
          \<and> \<not> retried (?net 3)"
    by (simp add: maxAttempts_def retried_pendingResponse not_retried_tokenResponse)
  with pollForAccessToken_bounded [of ?net "''D1''" 5]
  have "pollForAccessToken ?net ''D1'' 5 =
          (terminal (?net 3),
           concat (replicate (3 - 1) (retryRound ''D1'' 5)) @ [Fetch (tokenRequest ''D1'')])"
    by blast
  moreover have "concat (replicate (3 - 1) (retryRound ''D1'' 5)) =
      [Fetch (tokenRequest ''D1''), Sleep 5000, Fetch (tokenRequest ''D1''), Sleep 5000]"
    by (simp add: retryRound_def numeral_2_eq_2)
  moreover have "terminal (?net 3) = Inr ''tok''"
    by (simp add: terminal_def tokenResponse_def orEmpty_def)
  ultimately have first: "pollForAccessToken ?net ''D1'' 5 =
     (Inr ''tok'',
      [Fetch (tokenRequest ''D1''), Sleep 5000, Fetch (tokenRequest ''D1''), Sleep 5000,
       Fetch (tokenRequest ''D1'')])"
    by simp
  have "\<forall>j. 0 < j \<and> j \<le> maxAttempts \<longrightarrow> retried ((\<lambda>k. pendingResponse) j)"
    by (simp add: retried_pendingResponse)
  with pollForAccessToken_bounded [of "\<lambda>k. pendingResponse" "''D1''" 5]
  have "pollForAccessToken (\<lambda>k. pendingResponse) ''D1'' 5 =
       (Inl (Error ''Authentication timed out. Please try again.''),
        concat (replicate maxAttempts (retryRound ''D1'' 5)))"
    by blast
  then have second: "pollForAccessToken (\<lambda>k. pendingResponse) ''D1'' 5 =
       (Inl (Error ''Authentication timed out. Please try again.''),
        concat (replicate 60 [Fetch (tokenRequest ''D1''), Sleep 5000]))"
    by (simp add: maxAttempts_def retryRound_def)
  from pollForAccessToken_bounded [of ?net "''D1''" 5 "\<lambda>k. 200"]
  have "elapsed (\<lambda>k. 200) (snd (pollForAccessToken ?net ''D1'' 5)) =
        slept (snd (pollForAccessToken ?net ''D1'' 5))
        + (\<Sum>j = 1..length (fetches (snd (pollForAccessToken ?net ''D1'' 5))). int 200)"
    by blast
  then have third: "elapsed (\<lambda>k. 200) (snd (pollForAccessToken ?net ''D1'' 5)) = 10600"
    by (simp add: first slept_def fetches_def)
  from first second third show ?thesis by (intro conjI)
qed

text \<open>
  C2 (a transport failure during polling is slept on and retried). The code rethrows it:
  when the first request fails in transport, the poll ends with that error after one
  request and no sleep, although the second request would have brought the token.
\<close>

theorem pollForAccessToken_transport_failure_counterexample:
  "pollForAccessToken
       (\<lambda>k. if k = 1 then Inl (Error ''Failed to fetch'') else tokenResponse ''tok'') ''D1'' 5
     = (Inl (Error ''Failed to fetch''), [Fetch (tokenRequest ''D1'')])"
proof -
  let ?net = "\<lambda>k::nat. if k = 1 then Inl (Error ''Failed to fetch'') else tokenResponse ''tok''"
  have "pollLoop ?net ''D1'' 5 0 [] = (terminal (?net (Suc 0)), [] @ [Fetch (tokenRequest ''D1'')])"
    by (rule pollLoop_stop) (simp_all add: maxAttempts_def retried_def)
  then show ?thesis
    by (simp add: pollForAccessToken_def terminal_def)
qed

text \<open>
  C2, as the code has it: a transport failure at the first answer that is not retried
  ends the poll with that very error, straight after the request and without a sleep.
  What the loop treats as transient is a response whose status is not a success: it
  sleeps for the interval and goes round again, and 60 such answers end in the
  authentication-timeout error.
\<close>

theorem pollForAccessToken_transport_failure_terminal:
  "(\<forall>k e. 0 < k \<and> k \<le> maxAttempts \<and> (\<forall>j. 0 < j \<and> j < k \<longrightarrow> retried (net j))
            \<and> net k = Inl e \<longrightarrow>
        pollForAccessToken net dc i =
          (Inl e, concat (replicate (k - 1) (retryRound dc i)) @ [Fetch (tokenRequest dc)]))
   \<and> (\<forall>a res tr. a < maxAttempts \<and> net (Suc a) = Inr res \<and> \<not> ok res \<longrightarrow>
        pollLoop net dc i a tr =
          pollLoop net dc i (Suc a) (tr @ [Fetch (tokenRequest dc), Sleep (i * 1000)]))
   \<and> ((\<forall>j. 0 < j \<and> j \<le> maxAttempts \<longrightarrow> (\<exists>res. net j = Inr res \<and> \<not> ok res)) \<longrightarrow>
        pollForAccessToken net dc i =
          (Inl (Error ''Authentication timed out. Please try again.''),
           concat (replicate maxAttempts [Fetch (tokenRequest dc), Sleep (i * 1000)])))"
proof (intro conjI impI allI)
  fix k e
  assume h: "0 < k \<and> k \<le> maxAttempts \<and> (\<forall>j. 0 < j \<and> j < k \<longrightarrow> retried (net j))
            \<and> net k = Inl e"
  then have "\<not> retried (net k)" and "terminal (net k) = Inl e"
    by (simp_all add: retried_def terminal_def)
  with h pollLoop_first_terminal [of k net dc i]
  show "pollForAccessToken net dc i =
          (Inl e, concat (replicate (k - 1) (retryRound dc i)) @ [Fetch (tokenRequest dc)])"
    by simp
next
  fix a res tr
  assume h: "a < maxAttempts \<and> net (Suc a) = Inr res \<and> \<not> ok res"
  then have "retried (net (Suc a))" by (simp add: retried_def)
  with h pollLoop_retry [of a net dc i tr]
  show "pollLoop net dc i a tr =
          pollLoop net dc i (Suc a) (tr @ [Fetch (tokenRequest dc), Sleep (i * 1000)])"
    by (simp add: retryRound_def)
next
  assume "\<forall>j. 0 < j \<and> j \<le> maxAttempts \<longrightarrow> (\<exists>res. net j = Inr res \<and> \<not> ok res)"
  then have "\<And>j. 0 < j \<Longrightarrow> j \<le> maxAttempts \<Longrightarrow> retried (net j)"
    by (auto simp: retried_def)
  then show "pollForAccessToken net dc i =
          (Inl (Error ''Authentication timed out. Please try again.''),
           concat (replicate maxAttempts [Fetch (tokenRequest dc), Sleep (i * 1000)]))"
    using pollLoop_all_retried [of net dc i] by (simp add: retryRound_def)
qed

theorem pollForAccessToken_transport_failure_terminal_witness:
  "pollForAccessToken
       (\<lambda>k. if k = 1 then unavailableResponse else Inl (Error ''Failed to fetch'')) ''D1'' 5
     = (Inl (Error ''Failed to fetch''),
        [Fetch (tokenRequest ''D1''), Sleep 5000, Fetch (tokenRequest ''D1'')])
   \<and> pollForAccessToken (\<lambda>k. unavailableResponse) ''D1'' 5
     = (Inl (Error ''Authentication timed out. Please try again.''),
        concat (replicate 60 [Fetch (tokenRequest ''D1''), Sleep 5000]))"
proof -
  let ?net = "\<lambda>k::nat. if k = 1 then unavailableResponse else Inl (Error ''Failed to fetch'')"
  have bad: "\<not> ok (Response 503 \<lparr>access_token = None, error = None\<rparr>)"
    by (simp add: ok_def)
  have "0 < (2::nat) \<and> 2 \<le> maxAttempts \<and> (\<forall>j. 0 < j \<and> j < 2 \<longrightarrow> retried (?net j))
          \<and> ?net 2 = Inl (Error ''Failed to fetch'')"
    using bad by (auto simp: maxAttempts_def retried_def unavailableResponse_def)
  with pollForAccessToken_transport_failure_terminal [of ?net "''D1''" 5]
  have "pollForAccessToken ?net ''D1'' 5 =
          (Inl (Error ''Failed to fetch''),
           concat (replicate (2 - 1) (retryRound ''D1'' 5)) @ [Fetch (tokenRequest ''D1'')])"
    by blast
  then have first: "pollForAccessToken ?net ''D1'' 5 =
          (Inl (Error ''Failed to fetch''),
           [Fetch (tokenRequest ''D1''), Sleep 5000, Fetch (tokenRequest ''D1'')])"
    by (simp add: retryRound_def)
  have "\<forall>j. 0 < j \<and> j \<le> maxAttempts \<longrightarrow>
          (\<exists>res. (\<lambda>k. unavailableResponse) j = Inr res \<and> \<not> ok res)"
    using bad by (simp add: unavailableResponse_def)
  with pollForAccessToken_transport_failure_terminal [of "\<lambda>k. unavailableResponse" "''D1''" 5]
  have "pollForAccessToken (\<lambda>k. unavailableResponse) ''D1'' 5 =
          (Inl (Error ''Authentication timed out. Please try again.''),
           concat (replicate maxAttempts [Fetch (tokenRequest ''D1''), Sleep (5 * 1000)]))"
    by blast
  then have second: "pollForAccessToken (\<lambda>k. unavailableResponse) ''D1'' 5 =
          (Inl (Error ''Authentication timed out. Please try again.''),
           concat (replicate 60 [Fetch (tokenRequest ''D1''), Sleep 5000]))"
    by (simp add: maxAttempts_def)
  from first second show ?thesis by (rule conjI)
qed

text \<open>
  C9 (\<open>isAuthenticated\<close> is false without any request when no token is stored; with a
  token stored it makes one request to the identity endpoint and is true exactly when
  the answer has status 200, so a rejected fetch or any other status is unauthenticated).
\<close>

theorem isAuthenticated_remote_check:
  "(authTokenStorage_get s = '''' \<longrightarrow> isAuthenticated out s = (False, []))
   \<and> (authTokenStorage_get s \<noteq> '''' \<longrightarrow>
        fst (isAuthenticated out s) = (\<exists>res. out = Inr res \<and> status res = 200)
        \<and> snd (isAuthenticated out s) = [Fetch (userRequest (authTokenStorage_get s))])"
  by (auto simp: isAuthenticated_def validateGithubToken_def Let_def split: sum.splits)

theorem isAuthenticated_remote_check_witness:
  "isAuthenticated (Inr (Response 200 ())) initialStorage = (False, [])
   \<and> isAuthenticated (Inr (Response 200 ())) (initialStorage\<lparr>github_auth_token := ''tok''\<rparr>)
       = (True, [Fetch (userRequest ''tok'')])
   \<and> isAuthenticated (Inr (Response 401 ())) (initialStorage\<lparr>github_auth_token := ''tok''\<rparr>)
       = (False, [Fetch (userRequest ''tok'')])
   \<and> isAuthenticated (Inl (Error ''Failed to fetch'') :: unit fetched)
         (initialStorage\<lparr>github_auth_token := ''tok''\<rparr>)
       = (False, [Fetch (userRequest ''tok'')])"
  using isAuthenticated_remote_check [of initialStorage "Inr (Response 200 ())"]
    isAuthenticated_remote_check
      [of "initialStorage\<lparr>github_auth_token := ''tok''\<rparr>" "Inr (Response 200 ())"]
    isAuthenticated_remote_check
      [of "initialStorage\<lparr>github_auth_token := ''tok''\<rparr>" "Inr (Response 401 ())"]
    isAuthenticated_remote_check
      [of "initialStorage\<lparr>github_auth_token := ''tok''\<rparr>" "Inl (Error ''Failed to fetch'') :: unit fetched"]
  by (simp add: authTokenStorage_get_def initialStorage_def prod_eq_iff)

section \<open>Properties of the commit publisher\<close>

lemma commit_issues_request:
  assumes "authTokenStorage_get s \<noteq> ''''"
    and "owner (repoConfigStorage_get s) \<noteq> ''''"
    and "repo (repoConfigStorage_get s) \<noteq> ''''"
  shows "snd (commitSolutionToGithub now out data s) =
     [Fetch (commitRequest (authTokenStorage_get s) (repoConfigStorage_get s)
        ((if path (repoConfigStorage_get s) = '''' then ''''
          else if endsWith (path (repoConfigStorage_get s)) ''/''
          then path (repoConfigStorage_get s)
          else path (repoConfigStorage_get s) @ ''/'')
         @ problemId data @ ''_'' @ showInt now @ ''.''
         @ (if orEmpty (extension data) \<noteq> '''' then orEmpty (extension data) else ''txt''))
        (''Solution for '' @ problemId data @ '': '' @ problemName data
           @ '' ('' @ language data @ '')'')
        (btoa (code data)))]"
  using assms
  by (cases out) (simp_all add: commitSolutionToGithub_def Let_def)

lemma commit_refuses:
  assumes "authTokenStorage_get s = '''' \<or> owner (repoConfigStorage_get s) = ''''
           \<or> repo (repoConfigStorage_get s) = ''''"
  shows "commitSolutionToGithub now out data s =
           (Inl (Error ''Missing GitHub configuration''), [])"
  using assms by (auto simp: commitSolutionToGithub_def Let_def)

lemma table_entry_nonempty:
  assumes "map_of languageToExtension key = Some ext"
  shows "ext \<noteq> ''''"
  using assms by (auto simp: languageToExtension_def split: if_splits)

text \<open>
  The extension of the file name, for a language whose lower-cased name is not
  \<open>__proto__\<close>: the table's entry, and \<open>txt\<close> when the table has none (a name that
  finds an inherited function included, since the function does not travel).
\<close>

lemma extension_elsewhere:
  assumes "lower lang \<noteq> ''__proto__''"
  shows "(if orEmpty (received (extensionFor lower lang)) \<noteq> ''''
          then orEmpty (received (extensionFor lower lang)) else ''txt'') =
         (case map_of languageToExtension (lower lang) of Some ext \<Rightarrow> ext | None \<Rightarrow> ''txt'')"
proof (cases "map_of languageToExtension (lower lang)")
  case None
  with assms show ?thesis
    by (simp add: extensionFor_def getProperty_def received_def orEmpty_def)
next
  case (Some ext)
  then have "ext \<noteq> ''''" by (rule table_entry_nonempty)
  with Some show ?thesis
    by (simp add: extensionFor_def getProperty_def received_def orEmpty_def)
qed

lemma extension_proto:
  assumes "lower lang = ''__proto__''"
  shows "received (extensionFor lower lang) = Some ''[object Object]''"
  using assms
  by (simp add: extensionFor_def getProperty_def received_def languageToExtension_def)

text \<open>
  The destination in general: for every language whose lower-cased name is not
  \<open>__proto__\<close>, with a token, an owner and a repo stored, the solution is put by one PUT
  request at \<open>{prefix}{pid}_{timestamp}.{extension}\<close> under the contents URL of the
  repository, with the base64 encoding of the source as content; the extension is the
  language table's entry for the lower-cased language and \<open>txt\<close> when there is none,
  and the prefix is the configured path followed by a separator unless it already ends
  with one (an empty path puts the file at the root of the repository).
\<close>

lemma publish_destination_elsewhere:
  assumes "saveSolutionToGitHub lower avail pid pname lang src = Some data"
    and "lower lang \<noteq> ''__proto__''"
    and "authTokenStorage_get s \<noteq> ''''"
    and "owner (repoConfigStorage_get s) \<noteq> ''''"
    and "repo (repoConfigStorage_get s) \<noteq> ''''"
  shows "snd (commitSolutionToGithub now out data s) =
     [Fetch \<lparr>req_method = ''PUT'',
             req_url = ''https://api.github.com/repos/'' @ owner (repoConfigStorage_get s)
               @ ''/'' @ repo (repoConfigStorage_get s) @ ''/contents/''
               @ (if path (repoConfigStorage_get s) = '''' then ''''
                  else if endsWith (path (repoConfigStorage_get s)) ''/''
                  then path (repoConfigStorage_get s)
                  else path (repoConfigStorage_get s) @ ''/'')
               @ pid @ ''_'' @ showInt now @ ''.''
               @ (case map_of languageToExtension (lower lang) of
                    Some ext \<Rightarrow> ext | None \<Rightarrow> ''txt''),
             req_headers = [(''Authorization'', ''Bearer '' @ authTokenStorage_get s),
                            (''Content-Type'', ''application/json'')],
             req_body = [(''message'', ''Solution for '' @ pid @ '': '' @ pname
                                        @ '' ('' @ lang @ '')''),
                         (''content'', btoa src),
                         (''branch'', if branch (repoConfigStorage_get s) \<noteq> ''''
                                      then branch (repoConfigStorage_get s) else ''main'')]\<rparr>]"
proof -
  from assms(1) have data: "data = \<lparr>problemId = pid, problemName = pname, language = lang,
      extension = received (extensionFor lower lang), code = src\<rparr>"
    by (simp add: saveSolutionToGitHub_def Let_def split: if_splits)
  have ext: "(if orEmpty (extension data) \<noteq> '''' then orEmpty (extension data) else ''txt'') =
      (case map_of languageToExtension (lower lang) of Some ext \<Rightarrow> ext | None \<Rightarrow> ''txt'')"
    using extension_elsewhere [of lower lang, OF assms(2)] by (simp only: data solution_data.simps)
  show ?thesis
    by (simp only: commit_issues_request [OF assms(3-5)] ext)
       (simp add: data commitRequest_def)
qed

text \<open>The scenario of the spec: \<open>two-sum\<close> in \<open>python\<close> at timestamp 1000.\<close>

lemma publish_scenario:
  "saveSolutionToGitHub asciiLowerCase True ''two-sum'' ''Two Sum'' ''python'' ''x=1'' =
     Some \<lparr>problemId = ''two-sum'', problemName = ''Two Sum'', language = ''python'',
           extension = Some ''py'', code = ''x=1''\<rparr>
   \<and> snd (commitSolutionToGithub 1000 createdAnswer
          \<lparr>problemId = ''two-sum'', problemName = ''Two Sum'', language = ''python'',
           extension = Some ''py'', code = ''x=1''\<rparr> scenarioStorage) =
     [Fetch \<lparr>req_method = ''PUT'',
             req_url = ''https://api.github.com/repos/u/r/contents/sol/two-sum_1000.py'',
             req_headers = [(''Authorization'', ''Bearer cred''),
                            (''Content-Type'', ''application/json'')],
             req_body = [(''message'', ''Solution for two-sum: Two Sum (python)''),
                         (''content'', ''eD0x''), (''branch'', ''main'')]\<rparr>]"
proof -
  have sent: "saveSolutionToGitHub asciiLowerCase True ''two-sum'' ''Two Sum'' ''python'' ''x=1'' =
     Some \<lparr>problemId = ''two-sum'', problemName = ''Two Sum'', language = ''python'',
           extension = Some ''py'', code = ''x=1''\<rparr>"
    by (simp add: saveSolutionToGitHub_def extensionFor_def getProperty_def received_def
          languageToExtension_def asciiLowerCase_def lowerChar_def)
  have ts: "showInt 1000 = ''1000''"
    by (simp add: showInt_def showNat.simps digitChar_def)
  have put: "snd (commitSolutionToGithub 1000 createdAnswer
          \<lparr>problemId = ''two-sum'', problemName = ''Two Sum'', language = ''python'',
           extension = Some ''py'', code = ''x=1''\<rparr> scenarioStorage) =
     [Fetch \<lparr>req_method = ''PUT'',
             req_url = ''https://api.github.com/repos/u/r/contents/sol/two-sum_1000.py'',
             req_headers = [(''Authorization'', ''Bearer cred''),
                            (''Content-Type'', ''application/json'')],
             req_body = [(''message'', ''Solution for two-sum: Two Sum (python)''),
                         (''content'', ''eD0x''), (''branch'', ''main'')]\<rparr>]"
    by (simp add: commitSolutionToGithub_def Let_def createdAnswer_def scenarioStorage_def
          storage_ops orEmpty_def ts endsWith_def commitRequest_def ok_def b64_def b64chars_def)
  from sent put show ?thesis by (rule conjI)
qed

text \<open>
  C4 (the extension of the destination file is drawn from the fixed language table,
  \<open>txt\<close> by default). The table is an object literal, and for the language
  \<open>__proto__\<close>, which is not among its entries, the lookup finds the prototype object
  in place of nothing: the extension sent is that object, and the background script, in
  the spec's scenario otherwise unchanged, puts the file at
  \<open>sol/two-sum_1000.[object Object]\<close> and not at \<open>sol/two-sum_1000.txt\<close>.
\<close>

theorem publish_proto_language:
  "map_of languageToExtension (asciiLowerCase ''__proto__'') = None
   \<and> saveSolutionToGitHub asciiLowerCase True ''two-sum'' ''Two Sum'' ''__proto__'' ''x=1'' =
       Some \<lparr>problemId = ''two-sum'', problemName = ''Two Sum'', language = ''__proto__'',
             extension = Some ''[object Object]'', code = ''x=1''\<rparr>
   \<and> snd (commitSolutionToGithub 1000 createdAnswer
          \<lparr>problemId = ''two-sum'', problemName = ''Two Sum'', language = ''__proto__'',
           extension = Some ''[object Object]'', code = ''x=1''\<rparr> scenarioStorage) =
     [Fetch \<lparr>req_method = ''PUT'',
             req_url =
               ''https://api.github.com/repos/u/r/contents/sol/two-sum_1000.[object Object]'',
             req_headers = [(''Authorization'', ''Bearer cred''),
                            (''Content-Type'', ''application/json'')],
             req_body = [(''message'', ''Solution for two-sum: Two Sum (__proto__)''),
                         (''content'', ''eD0x''), (''branch'', ''main'')]\<rparr>]"
proof -
  have low: "asciiLowerCase ''__proto__'' = ''__proto__''"
    by (simp add: asciiLowerCase_def lowerChar_def)
  have absent: "map_of languageToExtension (asciiLowerCase ''__proto__'') = None"
    by (simp add: low languageToExtension_def)
  have sent: "saveSolutionToGitHub asciiLowerCase True ''two-sum'' ''Two Sum'' ''__proto__'' ''x=1'' =
       Some \<lparr>problemId = ''two-sum'', problemName = ''Two Sum'', language = ''__proto__'',
             extension = Some ''[object Object]'', code = ''x=1''\<rparr>"
    using extension_proto [of asciiLowerCase "''__proto__''", OF low]
    by (simp add: saveSolutionToGitHub_def)
  have ts: "showInt 1000 = ''1000''"
    by (simp add: showInt_def showNat.simps digitChar_def)
  have put: "snd (commitSolutionToGithub 1000 createdAnswer
          \<lparr>problemId = ''two-sum'', problemName = ''Two Sum'', language = ''__proto__'',
           extension = Some ''[object Object]'', code = ''x=1''\<rparr> scenarioStorage) =
     [Fetch \<lparr>req_method = ''PUT'',
             req_url =
               ''https://api.github.com/repos/u/r/contents/sol/two-sum_1000.[object Object]'',
             req_headers = [(''Authorization'', ''Bearer cred''),
                            (''Content-Type'', ''application/json'')],
             req_body = [(''message'', ''Solution for two-sum: Two Sum (__proto__)''),
                         (''content'', ''eD0x''), (''branch'', ''main'')]\<rparr>]"
    by (simp add: commitSolutionToGithub_def Let_def createdAnswer_def scenarioStorage_def
          storage_ops orEmpty_def ts endsWith_def commitRequest_def ok_def b64_def b64chars_def)
  from absent sent put show ?thesis by (intro conjI)
qed

text \<open>
  C5 (for every credential, no request when owner or repo is empty, exactly one PUT when
  both are present). The guard also tests the stored token: with the spec's target
  \<open>u/r\<close> and no credential stored, the call fails with the missing-configuration error
  and issues no request.
\<close>

theorem commit_without_token_counterexample:
  "owner (repoConfigStorage_get (scenarioStorage\<lparr>github_auth_token := ''''\<rparr>)) = ''u''
   \<and> repo (repoConfigStorage_get (scenarioStorage\<lparr>github_auth_token := ''''\<rparr>)) = ''r''
   \<and> commitSolutionToGithub 1000 createdAnswer
        \<lparr>problemId = ''two-sum'', problemName = ''Two Sum'', language = ''python'',
         extension = Some ''py'', code = ''x=1''\<rparr>
        (scenarioStorage\<lparr>github_auth_token := ''''\<rparr>)
      = (Inl (Error ''Missing GitHub configuration''), [])"
  by (simp add: commitSolutionToGithub_def scenarioStorage_def storage_ops)

text \<open>
  C5, as the code has it: no request is issued, and the call fails with the
  missing-configuration error, when the stored token, the owner or the repo is empty;
  exactly one request, a PUT, is issued when all three are present.
\<close>

theorem commit_guard:
  "(authTokenStorage_get s = '''' \<or> owner (repoConfigStorage_get s) = ''''
      \<or> repo (repoConfigStorage_get s) = '''' \<longrightarrow>
      commitSolutionToGithub now out data s =
        (Inl (Error ''Missing GitHub configuration''), []))
   \<and> (authTokenStorage_get s \<noteq> '''' \<and> owner (repoConfigStorage_get s) \<noteq> ''''
      \<and> repo (repoConfigStorage_get s) \<noteq> '''' \<longrightarrow>
      (\<exists>r. snd (commitSolutionToGithub now out data s) = [Fetch r] \<and> req_method r = ''PUT''))"
proof (intro conjI impI)
  assume "authTokenStorage_get s = '''' \<or> owner (repoConfigStorage_get s) = ''''
      \<or> repo (repoConfigStorage_get s) = ''''"
  then show "commitSolutionToGithub now out data s =
        (Inl (Error ''Missing GitHub configuration''), [])"
    by (rule commit_refuses)
next
  assume "authTokenStorage_get s \<noteq> '''' \<and> owner (repoConfigStorage_get s) \<noteq> ''''
      \<and> repo (repoConfigStorage_get s) \<noteq> ''''"
  then show "\<exists>r. snd (commitSolutionToGithub now out data s) = [Fetch r] \<and> req_method r = ''PUT''"
    using commit_issues_request [of s now out data] by (simp add: commitRequest_def)
qed

theorem commit_guard_witness:
  "commitSolutionToGithub 1000 createdAnswer
        \<lparr>problemId = ''two-sum'', problemName = ''Two Sum'', language = ''python'',
         extension = Some ''py'', code = ''x=1''\<rparr>
        (scenarioStorage\<lparr>github_selected_repo := defaultRepoConfig\<rparr>)
      = (Inl (Error ''Missing GitHub configuration''), [])
   \<and> (\<exists>r. snd (commitSolutionToGithub 1000 createdAnswer
         \<lparr>problemId = ''two-sum'', problemName = ''Two Sum'', language = ''python'',
          extension = Some ''py'', code = ''x=1''\<rparr> scenarioStorage) = [Fetch r]
        \<and> req_method r = ''PUT'')"
  using
    commit_guard [of "scenarioStorage\<lparr>github_selected_repo := defaultRepoConfig\<rparr>"
      1000 createdAnswer "\<lparr>problemId = ''two-sum'', problemName = ''Two Sum'',
          language = ''python'', extension = Some ''py'', code = ''x=1''\<rparr>"]
    commit_guard [of scenarioStorage
      1000 createdAnswer "\<lparr>problemId = ''two-sum'', problemName = ''Two Sum'',
          language = ''python'', extension = Some ''py'', code = ''x=1''\<rparr>"]
  by (simp add: scenarioStorage_def defaultRepoConfig_def storage_ops)

section \<open>Properties of the submission watcher\<close>










lemma problemPage_id: "extractSubmissionIdFromPage problemPage = None"
  by (simp add: extractSubmissionIdFromPage_def problemPage_def isDigit_def)




section \<open>Properties of the command router\<close>

lemma isActive_unexpired:
  assumes "deviceCodeStorage_get s = Some info" and "expires_at info = Some e"
    and "0 \<le> now1" and "now1 < e"
  shows "githubDeviceCodeStorage_isActive now1 now2 now3 s = (True, s)"
  using assms by (simp add: githubDeviceCodeStorage_isActive_def)

lemma isActive_idle:
  assumes "deviceCodeStorage_get s = None"
  shows "githubDeviceCodeStorage_isActive now1 now2 now3 s = (False, s)"
  using assms by (simp add: githubDeviceCodeStorage_isActive_def)

lemma login_while_active:
  assumes "deviceCodeStorage_get s = Some info" and "expires_at info = Some e"
    and "0 \<le> isActiveNow1 env" and "isActiveNow1 env < e"
  shows "handleGithubLogin env msg s =
     \<lparr>returned = True,
      responses = [[(''success'', JBool True), (''alreadyInProgress'', JBool True),
                    (''deviceCode'', JString (user_code info)),
                    (''verificationUrl'', JString (verification_uri info))]],
      stored = s, performed = [], polling = None\<rparr>"
  using assms
  by (simp add: handleGithubLogin_def isActive_unexpired [OF assms(1,2)])

lemma login_when_idle:
  assumes "deviceCodeStorage_get s = None" and "deviceCodeAnswer env = Inr res" and "ok res"
  shows "handleGithubLogin env msg s =
     \<lparr>returned = True,
      responses = [[(''success'', JBool True),
                    (''deviceCode'', JString (user_code (json res))),
                    (''verificationUrl'', JString (verification_uri (json res)))]],
      stored = deviceCodeStorage_set
                 (Some ((json res)\<lparr>expires_at :=
                           Some (startNow env + expires_in (json res) * 1000)\<rparr>)) s,
      performed = [Fetch deviceCodeRequest],
      polling = Some (device_code (json res), interval (json res))\<rparr>"
  using assms
  by (simp add: handleGithubLogin_def isActive_idle startDeviceFlow_def Let_def)

lemma loginCalls_while_active:
  assumes "deviceCodeStorage_get s = Some info" and "expires_at info = Some e"
  shows "\<forall>env \<in> set envs. 0 \<le> isActiveNow1 env \<and> isActiveNow1 env < e \<Longrightarrow>
     loginCalls envs msg s =
       map (\<lambda>env. \<lparr>returned = True,
               responses = [[(''success'', JBool True), (''alreadyInProgress'', JBool True),
                             (''deviceCode'', JString (user_code info)),
                             (''verificationUrl'', JString (verification_uri info))]],
               stored = s, performed = [], polling = None\<rparr>) envs"
  by (induction envs) (simp_all add: login_while_active [OF assms])

text \<open>
  C3 (of a sequence of login requests issued while the session is not expired, only the
  first starts a flow). The first request finds no session, asks the device-code
  endpoint once, stores the session and starts the poll. Every later request that
  arrives before the stored \<open>expires_at\<close> answers with the user code and the
  verification address of that session, marked \<open>alreadyInProgress\<close>, issues no
  request, starts no poll and leaves the store, with its one session, as it is.
\<close>

theorem login_single_flight:
  assumes "deviceCodeStorage_get s = None"
    and "deviceCodeAnswer env0 = Inr res" and "ok res"
    and "\<forall>env \<in> set envs. 0 \<le> isActiveNow1 env
           \<and> isActiveNow1 env < startNow env0 + expires_in (json res) * 1000"
  shows "loginCalls (env0 # envs) msg s =
     \<lparr>returned = True,
      responses = [[(''success'', JBool True),
                    (''deviceCode'', JString (user_code (json res))),
                    (''verificationUrl'', JString (verification_uri (json res)))]],
      stored = deviceCodeStorage_set
                 (Some ((json res)\<lparr>expires_at :=
                           Some (startNow env0 + expires_in (json res) * 1000)\<rparr>)) s,
      performed = [Fetch deviceCodeRequest],
      polling = Some (device_code (json res), interval (json res))\<rparr>
     # map (\<lambda>env. \<lparr>returned = True,
               responses = [[(''success'', JBool True), (''alreadyInProgress'', JBool True),
                             (''deviceCode'', JString (user_code (json res))),
                             (''verificationUrl'', JString (verification_uri (json res)))]],
               stored = deviceCodeStorage_set
                 (Some ((json res)\<lparr>expires_at :=
                           Some (startNow env0 + expires_in (json res) * 1000)\<rparr>)) s,
               performed = [], polling = None\<rparr>) envs"
proof -
  let ?info = "(json res)\<lparr>expires_at := Some (startNow env0 + expires_in (json res) * 1000)\<rparr>"
  let ?s1 = "deviceCodeStorage_set (Some ?info) s"
  have first: "handleGithubLogin env0 msg s =
     \<lparr>returned = True,
      responses = [[(''success'', JBool True),
                    (''deviceCode'', JString (user_code (json res))),
                    (''verificationUrl'', JString (verification_uri (json res)))]],
      stored = ?s1, performed = [Fetch deviceCodeRequest],
      polling = Some (device_code (json res), interval (json res))\<rparr>"
    using assms(1-3) by (rule login_when_idle)
  have got: "deviceCodeStorage_get ?s1 = Some ?info"
    by (simp add: storage_ops)
  have exp: "expires_at ?info = Some (startNow env0 + expires_in (json res) * 1000)"
    by simp
  have "loginCalls envs msg ?s1 =
       map (\<lambda>env. \<lparr>returned = True,
               responses = [[(''success'', JBool True), (''alreadyInProgress'', JBool True),
                             (''deviceCode'', JString (user_code ?info)),
                             (''verificationUrl'', JString (verification_uri ?info))]],
               stored = ?s1, performed = [], polling = None\<rparr>) envs"
    using assms(4) by (rule loginCalls_while_active [OF got exp])
  with first show ?thesis by simp
qed

theorem login_single_flight_witness:
  "loginCalls [exampleEnv, exampleEnv\<lparr>isActiveNow1 := 3000\<rparr>,
               exampleEnv\<lparr>isActiveNow1 := 901999\<rparr>]
       (exampleMessage ''github-login'') initialStorage =
     [\<lparr>returned = True,
       responses = [[(''success'', JBool True), (''deviceCode'', JString ''ABCD-1234''),
                     (''verificationUrl'', JString ''https://example/activate'')]],
       stored = initialStorage\<lparr>github_device_code :=
                  Some (exampleSession\<lparr>expires_at := Some 902000\<rparr>)\<rparr>,
       performed = [Fetch deviceCodeRequest], polling = Some (''D1'', 5)\<rparr>,
      \<lparr>returned = True,
       responses = [[(''success'', JBool True), (''alreadyInProgress'', JBool True),
                     (''deviceCode'', JString ''ABCD-1234''),
                     (''verificationUrl'', JString ''https://example/activate'')]],
       stored = initialStorage\<lparr>github_device_code :=
                  Some (exampleSession\<lparr>expires_at := Some 902000\<rparr>)\<rparr>,
       performed = [], polling = None\<rparr>,
      \<lparr>returned = True,
       responses = [[(''success'', JBool True), (''alreadyInProgress'', JBool True),
                     (''deviceCode'', JString ''ABCD-1234''),
                     (''verificationUrl'', JString ''https://example/activate'')]],
       stored = initialStorage\<lparr>github_device_code :=
                  Some (exampleSession\<lparr>expires_at := Some 902000\<rparr>)\<rparr>,
       performed = [], polling = None\<rparr>]"
proof -
  let ?res = "Response 200 (exampleSession\<lparr>expires_at := None\<rparr>)"
  have idle: "deviceCodeStorage_get initialStorage = None"
    by (simp add: initialStorage_def storage_ops)
  have answer: "deviceCodeAnswer exampleEnv = Inr ?res"
    by (simp add: exampleEnv_def)
  have fine: "ok ?res" by (simp add: ok_def)
  have later: "\<forall>env \<in> set [exampleEnv\<lparr>isActiveNow1 := 3000\<rparr>,
                             exampleEnv\<lparr>isActiveNow1 := 901999\<rparr>].
      0 \<le> isActiveNow1 env
      \<and> isActiveNow1 env < startNow exampleEnv + expires_in (json ?res) * 1000"
    by (simp add: exampleEnv_def exampleSession_def)
  show ?thesis
    by (subst login_single_flight [OF idle answer fine later, of "exampleMessage ''github-login''"])
       (simp add: exampleEnv_def exampleSession_def storage_ops initialStorage_def)
qed

lemma onMessage_own:
  assumes "map_of handlers (action msg) = Some handler"
  shows "onMessage env msg s = handler env msg s"
  using assms by (simp add: onMessage_def getProperty_def)

lemma onMessage_returning:
  assumes "map_of handlers (action msg) = Some (returning handler)"
  shows "onMessage env msg s = Inr (handler env msg s)"
  using onMessage_own [OF assms] by (simp add: returning_def)

lemma one_success_response:
  assumes "length rs = 1" and "list_all successShaped rs"
  shows "\<exists>r b. rs = [r] \<and> map_of r ''success'' = Some (JBool b)
           \<and> (b \<or> (\<exists>e. map_of r ''error'' = Some (JString e)))"
proof -
  from assms(1) obtain r where rs: "rs = [r]"
    by (cases rs) auto
  with assms(2) have "successShaped r" by simp
  then have "\<exists>b. map_of r ''success'' = Some (JBool b)
           \<and> (b \<or> (\<exists>e. map_of r ''error'' = Some (JString e)))"
    by (auto simp: successShaped_def split: option.splits jvalue.splits if_splits)
  with rs show ?thesis by blast
qed

lemma one_flag_response:
  assumes "length rs = 1" and "list_all (flagShaped field) rs"
  shows "\<exists>r b. rs = [r] \<and> map_of r field = Some (JBool b) \<and> map_of r ''success'' = None"
proof -
  from assms(1) obtain r where rs: "rs = [r]"
    by (cases rs) auto
  with assms(2) have "flagShaped field r" by simp
  then have "\<exists>b. map_of r field = Some (JBool b) \<and> map_of r ''success'' = None"
    by (auto simp: flagShaped_def split: option.splits jvalue.splits)
  with rs show ?thesis by blast
qed

lemma handleGithubLogin_shape:
  "length (responses (handleGithubLogin env msg s)) = 1
   \<and> list_all successShaped (responses (handleGithubLogin env msg s))"
  by (simp add: handleGithubLogin_def failure_def successShaped_def
           split: prod.splits option.splits sum.splits)

lemma handleOpenVerificationPage_shape:
  "length (responses (handleOpenVerificationPage env msg s)) = 1
   \<and> list_all successShaped (responses (handleOpenVerificationPage env msg s))"
  by (simp add: handleOpenVerificationPage_def failure_def successShaped_def
           split: option.splits)

lemma handleCancelDeviceFlow_shape:
  "length (responses (handleCancelDeviceFlow env msg s)) = 1
   \<and> list_all successShaped (responses (handleCancelDeviceFlow env msg s))"
  by (simp add: handleCancelDeviceFlow_def successShaped_def)

lemma handleLogout_shape:
  "length (responses (handleLogout env msg s)) = 1
   \<and> list_all successShaped (responses (handleLogout env msg s))"
  by (simp add: handleLogout_def successShaped_def)

lemma handleFetchRepositories_shape:
  "length (responses (handleFetchRepositories env msg s)) = 1
   \<and> list_all successShaped (responses (handleFetchRepositories env msg s))"
  by (simp add: handleFetchRepositories_def Let_def failure_def successShaped_def
           split: prod.splits sum.splits)

lemma handleUpdateRepoPath_shape:
  "length (responses (handleUpdateRepoPath env msg s)) = 1
   \<and> list_all successShaped (responses (handleUpdateRepoPath env msg s))"
  by (simp add: handleUpdateRepoPath_def successShaped_def)

lemma handleSaveRepoConfig_shape:
  "length (responses (handleSaveRepoConfig env msg s)) = 1
   \<and> list_all successShaped (responses (handleSaveRepoConfig env msg s))"
  by (simp add: handleSaveRepoConfig_def successShaped_def)

lemma handleSubmitLeetCodeSolution_shape:
  assumes "msg_data msg = Some d"
  shows "\<exists>h. handleSubmitLeetCodeSolution env msg s = Inr h \<and> length (responses h) = 1
           \<and> list_all successShaped (responses h)"
  using assms
  by (simp add: handleSubmitLeetCodeSolution_def failure_def successShaped_def
           split: prod.splits sum.splits)

lemma handleCheckDeviceFlow_shape:
  "length (responses (handleCheckDeviceFlow env msg s)) = 1
   \<and> list_all (flagShaped ''inProgress'') (responses (handleCheckDeviceFlow env msg s))"
  by (simp add: handleCheckDeviceFlow_def flagShaped_def split: prod.splits option.splits)

lemma handleCheckAuthStatus_shape:
  "length (responses (handleCheckAuthStatus env msg s)) = 1
   \<and> list_all (flagShaped ''isLoggedIn'') (responses (handleCheckAuthStatus env msg s))"
  by (simp add: handleCheckAuthStatus_def Let_def flagShaped_def split: prod.splits sum.splits)

lemma named_success_shape:
  assumes "action msg \<in> set [''github-login'', ''cancel-device-flow'', ''github-logout'',
                      ''open-verification-page'', ''fetch-github-repos'', ''save-repo-config'',
                      ''update-repo-path'', ''submit-leetcode-solution'']"
    and "action msg = ''submit-leetcode-solution'' \<longrightarrow> msg_data msg \<noteq> None"
  shows "\<exists>h r b. onMessage env msg s = Inr h \<and> responses h = [r]
           \<and> map_of r ''success'' = Some (JBool b)
           \<and> (b \<or> (\<exists>e. map_of r ''error'' = Some (JString e)))"
proof -
  have "\<exists>h. onMessage env msg s = Inr h \<and> length (responses h) = 1
           \<and> list_all successShaped (responses h)"
  proof -
    from assms(1) consider "action msg = ''github-login''" | "action msg = ''cancel-device-flow''"
      | "action msg = ''github-logout''" | "action msg = ''open-verification-page''"
      | "action msg = ''fetch-github-repos''" | "action msg = ''save-repo-config''"
      | "action msg = ''update-repo-path''" | "action msg = ''submit-leetcode-solution''"
      by auto
    then show ?thesis
    proof cases
      case 1
      then have "onMessage env msg s = Inr (handleGithubLogin env msg s)"
        by (intro onMessage_returning) (simp add: handlers_def)
      then show ?thesis by (simp add: handleGithubLogin_shape)
    next
      case 2
      then have "onMessage env msg s = Inr (handleCancelDeviceFlow env msg s)"
        by (intro onMessage_returning) (simp add: handlers_def)
      then show ?thesis by (simp add: handleCancelDeviceFlow_shape)
    next
      case 3
      then have "onMessage env msg s = Inr (handleLogout env msg s)"
        by (intro onMessage_returning) (simp add: handlers_def)
      then show ?thesis by (simp add: handleLogout_shape)
    next
      case 4
      then have "onMessage env msg s = Inr (handleOpenVerificationPage env msg s)"
        by (intro onMessage_returning) (simp add: handlers_def)
      then show ?thesis by (simp add: handleOpenVerificationPage_shape)
    next
      case 5
      then have "onMessage env msg s = Inr (handleFetchRepositories env msg s)"
        by (intro onMessage_returning) (simp add: handlers_def)
      then show ?thesis by (simp add: handleFetchRepositories_shape)
    next
      case 6
      then have "onMessage env msg s = Inr (handleSaveRepoConfig env msg s)"
        by (intro onMessage_returning) (simp add: handlers_def)
      then show ?thesis by (simp add: handleSaveRepoConfig_shape)
    next
      case 7
      then have "onMessage env msg s = Inr (handleUpdateRepoPath env msg s)"
        by (intro onMessage_returning) (simp add: handlers_def)
      then show ?thesis by (simp add: handleUpdateRepoPath_shape)
    next
      case 8
      then have disp: "onMessage env msg s = handleSubmitLeetCodeSolution env msg s"
        by (intro onMessage_own) (simp add: handlers_def)
      from 8 assms(2) obtain d where "msg_data msg = Some d" by auto
      then show ?thesis
        using handleSubmitLeetCodeSolution_shape [of msg d env s] by (simp add: disp)
    qed
  qed
  then obtain h where h: "onMessage env msg s = Inr h" "length (responses h) = 1"
    "list_all successShaped (responses h)"
    by blast
  from one_success_response [OF h(2,3)] h(1) show ?thesis by blast
qed

lemma onMessage_login:
  assumes "action msg = ''github-login''"
  shows "onMessage env msg s = Inr (handleGithubLogin env msg s)"
  using assms by (intro onMessage_returning) (simp add: handlers_def)

lemma onMessage_flow:
  assumes "action msg = ''check-device-flow''"
  shows "onMessage env msg s = Inr (handleCheckDeviceFlow env msg s)"
  using assms by (intro onMessage_returning) (simp add: handlers_def)

lemma onMessage_auth:
  assumes "action msg = ''check-auth-status''"
  shows "onMessage env msg s = Inr (handleCheckAuthStatus env msg s)"
  using assms by (intro onMessage_returning) (simp add: handlers_def)

lemma onMessage_repos:
  assumes "action msg = ''fetch-github-repos''"
  shows "onMessage env msg s = Inr (handleFetchRepositories env msg s)"
  using assms by (intro onMessage_returning) (simp add: handlers_def)

lemma onMessage_page:
  assumes "action msg = ''open-verification-page''"
  shows "onMessage env msg s = Inr (handleOpenVerificationPage env msg s)"
  using assms by (intro onMessage_returning) (simp add: handlers_def)

lemma onMessage_submit:
  assumes "action msg = ''submit-leetcode-solution''"
  shows "onMessage env msg s = handleSubmitLeetCodeSolution env msg s"
  using assms by (intro onMessage_own) (simp add: handlers_def)

text \<open>
  C8 (for every named operation and every input the handler never throws across the
  dispatch boundary, and its response is \<open>{success: bool, ...}\<close>, with a string
  \<open>error\<close> when \<open>success\<close> is false). Two operations answer in another shape: with
  no session stored \<open>check-device-flow\<close> sends \<open>{inProgress: false}\<close>, and with no
  token stored \<open>check-auth-status\<close> sends \<open>{isLoggedIn: false}\<close>; neither response has
  a \<open>success\<close> field. And a \<open>submit-leetcode-solution\<close> message without \<open>data\<close>
  makes the listener throw.
\<close>

theorem response_shape_counterexample:
  "onMessage exampleEnv (exampleMessage ''check-device-flow'') initialStorage =
     Inr \<lparr>returned = True, responses = [[(''inProgress'', JBool False)]],
          stored = initialStorage, performed = [], polling = None\<rparr>
   \<and> map_of [(''inProgress'', JBool False)] ''success'' = None
   \<and> onMessage exampleEnv (exampleMessage ''check-auth-status'') initialStorage =
     Inr \<lparr>returned = True, responses = [[(''isLoggedIn'', JBool False)]],
          stored = initialStorage, performed = [], polling = None\<rparr>
   \<and> map_of [(''isLoggedIn'', JBool False)] ''success'' = None
   \<and> onMessage exampleEnv
        ((exampleMessage ''submit-leetcode-solution'')\<lparr>msg_data := None\<rparr>) initialStorage =
     Inl (Error ''Cannot read properties of undefined (reading 'problemId')'')"
  by (simp add: onMessage_def getProperty_def handlers_def returning_def exampleMessage_def
        handleCheckDeviceFlow_def handleCheckAuthStatus_def handleSubmitLeetCodeSolution_def
        isAuthenticated_def isActive_idle initialStorage_def storage_ops)

text \<open>
  C8, as the code has it: for every named operation and every message (what a
  \<open>submit-leetcode-solution\<close> message without \<open>data\<close> does is left aside) the
  listener does not throw and the handler sends exactly one response, into which every
  failure of the calls it makes is converted. For eight operations the response has a
  boolean \<open>success\<close>, and a string \<open>error\<close> when \<open>success\<close> is false: a failed
  commit, device-flow start or repository fetch answers \<open>{success: false, error}\<close>
  with the message of the failure, a successful one \<open>success: true\<close> with its payload.
  \<open>check-device-flow\<close> answers with a boolean \<open>inProgress\<close> and
  \<open>check-auth-status\<close> with a boolean \<open>isLoggedIn\<close> (false, with the \<open>error\<close>, when
  the identity fetch fails), both without \<open>success\<close>.
\<close>

theorem response_shapes:
  "(action msg \<in> set [''github-login'', ''cancel-device-flow'', ''github-logout'',
                      ''open-verification-page'', ''fetch-github-repos'', ''save-repo-config'',
                      ''update-repo-path'', ''submit-leetcode-solution'']
      \<and> (action msg = ''submit-leetcode-solution'' \<longrightarrow> msg_data msg \<noteq> None) \<longrightarrow>
      (\<exists>h r b. onMessage env msg s = Inr h \<and> responses h = [r]
         \<and> map_of r ''success'' = Some (JBool b)
         \<and> (b \<or> (\<exists>e. map_of r ''error'' = Some (JString e)))))
   \<and> (action msg = ''check-device-flow'' \<longrightarrow>
      (\<exists>h r b. onMessage env msg s = Inr h \<and> responses h = [r]
         \<and> map_of r ''inProgress'' = Some (JBool b) \<and> map_of r ''success'' = None))
   \<and> (action msg = ''check-auth-status'' \<longrightarrow>
      (\<exists>h r b. onMessage env msg s = Inr h \<and> responses h = [r]
         \<and> map_of r ''isLoggedIn'' = Some (JBool b) \<and> map_of r ''success'' = None))
   \<and> (\<forall>d e tr. action msg = ''submit-leetcode-solution'' \<and> msg_data msg = Some d
         \<and> commitSolutionToGithub (commitNow env) (putAnswer env) d s = (Inl e, tr) \<longrightarrow>
      (\<exists>h. onMessage env msg s = Inr h
         \<and> responses h = [[(''success'', JBool False), (''error'', JString (message e))]]))
   \<and> (\<forall>d result tr. action msg = ''submit-leetcode-solution'' \<and> msg_data msg = Some d
         \<and> commitSolutionToGithub (commitNow env) (putAnswer env) d s = (Inr result, tr) \<longrightarrow>
      (\<exists>h. onMessage env msg s = Inr h
         \<and> responses h = [[(''success'', JBool True), (''result'', JCommit result)]]))
   \<and> (\<forall>s1 e s2 tr. action msg = ''github-login''
         \<and> githubDeviceCodeStorage_isActive (isActiveNow1 env) (isActiveNow2 env)
              (isActiveNow3 env) s = (False, s1)
         \<and> startDeviceFlow (startNow env) (deviceCodeAnswer env) s1 = (Inl e, s2, tr) \<longrightarrow>
      (\<exists>h. onMessage env msg s = Inr h
         \<and> responses h = [[(''success'', JBool False), (''error'', JString (message e))]]))
   \<and> (\<forall>s1 info s2 tr. action msg = ''github-login''
         \<and> githubDeviceCodeStorage_isActive (isActiveNow1 env) (isActiveNow2 env)
              (isActiveNow3 env) s = (False, s1)
         \<and> startDeviceFlow (startNow env) (deviceCodeAnswer env) s1 = (Inr info, s2, tr) \<longrightarrow>
      (\<exists>h. onMessage env msg s = Inr h
         \<and> responses h = [[(''success'', JBool True),
                            (''deviceCode'', JString (user_code info)),
                            (''verificationUrl'', JString (verification_uri info))]]))
   \<and> (\<forall>s1 info. action msg = ''github-login''
         \<and> githubDeviceCodeStorage_isActive (isActiveNow1 env) (isActiveNow2 env)
              (isActiveNow3 env) s = (True, s1)
         \<and> deviceCodeStorage_get s1 = Some info \<longrightarrow>
      (\<exists>h. onMessage env msg s = Inr h
         \<and> responses h = [[(''success'', JBool True), (''alreadyInProgress'', JBool True),
                            (''deviceCode'', JString (user_code info)),
                            (''verificationUrl'', JString (verification_uri info))]]))
   \<and> (\<forall>e tr. action msg = ''fetch-github-repos''
         \<and> fetchUserRepositories (reposAnswer env) s = (Inl e, tr) \<longrightarrow>
      (\<exists>h. onMessage env msg s = Inr h
         \<and> responses h = [[(''success'', JBool False), (''error'', JString (message e))]]))
   \<and> (\<forall>repositories tr. action msg = ''fetch-github-repos''
         \<and> fetchUserRepositories (reposAnswer env) s = (Inr repositories, tr) \<longrightarrow>
      (\<exists>h. onMessage env msg s = Inr h
         \<and> responses h = [[(''success'', JBool True),
                            (''repositories'', JRepos repositories)]]))
   \<and> (action msg = ''open-verification-page''
         \<and> (deviceCodeStorage_get s = None
              \<or> (\<exists>info. deviceCodeStorage_get s = Some info \<and> verification_uri info = '''')) \<longrightarrow>
      (\<exists>h. onMessage env msg s = Inr h
         \<and> responses h = [[(''success'', JBool False),
                            (''error'', JString ''No active device flow found'')]]))
   \<and> (\<forall>info. action msg = ''open-verification-page''
         \<and> deviceCodeStorage_get s = Some info \<and> verification_uri info \<noteq> '''' \<longrightarrow>
      (\<exists>h. onMessage env msg s = Inr h \<and> responses h = [[(''success'', JBool True)]]))
   \<and> (action msg \<in> set [''cancel-device-flow'', ''github-logout'', ''save-repo-config'',
                         ''update-repo-path''] \<longrightarrow>
      (\<exists>h. onMessage env msg s = Inr h \<and> responses h = [[(''success'', JBool True)]]))
   \<and> (\<forall>tr1 e tr2. action msg = ''check-auth-status''
         \<and> isAuthenticated (validateAnswer env) s = (True, tr1)
         \<and> getGithubUserInfo (userAnswer env) (authTokenStorage_get s) = (Inl e, tr2) \<longrightarrow>
      (\<exists>h. onMessage env msg s = Inr h
         \<and> responses h = [[(''isLoggedIn'', JBool False), (''error'', JString (message e))]]))
   \<and> (\<forall>tr1 userInfo tr2. action msg = ''check-auth-status''
         \<and> isAuthenticated (validateAnswer env) s = (True, tr1)
         \<and> getGithubUserInfo (userAnswer env) (authTokenStorage_get s) = (Inr userInfo, tr2) \<longrightarrow>
      (\<exists>h. onMessage env msg s = Inr h
         \<and> responses h = [[(''isLoggedIn'', JBool True), (''user'', JUser userInfo)]]))
   \<and> (\<forall>tr1. action msg = ''check-auth-status''
         \<and> isAuthenticated (validateAnswer env) s = (False, tr1) \<longrightarrow>
      (\<exists>h. onMessage env msg s = Inr h \<and> responses h = [[(''isLoggedIn'', JBool False)]]))
   \<and> (\<forall>s1. action msg = ''check-device-flow''
         \<and> githubDeviceCodeStorage_isActive (isActiveNow1 env) (isActiveNow2 env)
              (isActiveNow3 env) s = (False, s1) \<longrightarrow>
      (\<exists>h. onMessage env msg s = Inr h \<and> responses h = [[(''inProgress'', JBool False)]]))
   \<and> (\<forall>s1 info. action msg = ''check-device-flow''
         \<and> githubDeviceCodeStorage_isActive (isActiveNow1 env) (isActiveNow2 env)
              (isActiveNow3 env) s = (True, s1)
         \<and> deviceCodeStorage_get s1 = Some info \<longrightarrow>
      (\<exists>h. onMessage env msg s = Inr h
         \<and> responses h = [[(''inProgress'', JBool True),
                            (''deviceCode'', JString (user_code info)),
                            (''verificationUrl'', JString (verification_uri info))]]))"
proof -
  have shape: "action msg \<in> set [''github-login'', ''cancel-device-flow'', ''github-logout'',
                      ''open-verification-page'', ''fetch-github-repos'', ''save-repo-config'',
                      ''update-repo-path'', ''submit-leetcode-solution'']
      \<and> (action msg = ''submit-leetcode-solution'' \<longrightarrow> msg_data msg \<noteq> None) \<longrightarrow>
      (\<exists>h r b. onMessage env msg s = Inr h \<and> responses h = [r]
         \<and> map_of r ''success'' = Some (JBool b)
         \<and> (b \<or> (\<exists>e. map_of r ''error'' = Some (JString e))))"
    using named_success_shape [of msg env s] by blast
  have flowShape: "action msg = ''check-device-flow'' \<longrightarrow>
      (\<exists>h r b. onMessage env msg s = Inr h \<and> responses h = [r]
         \<and> map_of r ''inProgress'' = Some (JBool b) \<and> map_of r ''success'' = None)"
    using one_flag_response [of "responses (handleCheckDeviceFlow env msg s)" "''inProgress''"]
      handleCheckDeviceFlow_shape [of env msg s]
    by (auto simp: onMessage_flow)
  have authShape: "action msg = ''check-auth-status'' \<longrightarrow>
      (\<exists>h r b. onMessage env msg s = Inr h \<and> responses h = [r]
         \<and> map_of r ''isLoggedIn'' = Some (JBool b) \<and> map_of r ''success'' = None)"
    using one_flag_response [of "responses (handleCheckAuthStatus env msg s)" "''isLoggedIn''"]
      handleCheckAuthStatus_shape [of env msg s]
    by (auto simp: onMessage_auth)
  have submitFails: "\<forall>d e tr. action msg = ''submit-leetcode-solution'' \<and> msg_data msg = Some d
         \<and> commitSolutionToGithub (commitNow env) (putAnswer env) d s = (Inl e, tr) \<longrightarrow>
      (\<exists>h. onMessage env msg s = Inr h
         \<and> responses h = [[(''success'', JBool False), (''error'', JString (message e))]])"
    by (auto simp: onMessage_submit handleSubmitLeetCodeSolution_def failure_def)
  have submitDone: "\<forall>d result tr. action msg = ''submit-leetcode-solution'' \<and> msg_data msg = Some d
         \<and> commitSolutionToGithub (commitNow env) (putAnswer env) d s = (Inr result, tr) \<longrightarrow>
      (\<exists>h. onMessage env msg s = Inr h
         \<and> responses h = [[(''success'', JBool True), (''result'', JCommit result)]])"
    by (auto simp: onMessage_submit handleSubmitLeetCodeSolution_def)
  have loginFails: "\<forall>s1 e s2 tr. action msg = ''github-login''
         \<and> githubDeviceCodeStorage_isActive (isActiveNow1 env) (isActiveNow2 env)
              (isActiveNow3 env) s = (False, s1)
         \<and> startDeviceFlow (startNow env) (deviceCodeAnswer env) s1 = (Inl e, s2, tr) \<longrightarrow>
      (\<exists>h. onMessage env msg s = Inr h
         \<and> responses h = [[(''success'', JBool False), (''error'', JString (message e))]])"
    by (auto simp: onMessage_login handleGithubLogin_def failure_def)
  have loginStarts: "\<forall>s1 info s2 tr. action msg = ''github-login''
         \<and> githubDeviceCodeStorage_isActive (isActiveNow1 env) (isActiveNow2 env)
              (isActiveNow3 env) s = (False, s1)
         \<and> startDeviceFlow (startNow env) (deviceCodeAnswer env) s1 = (Inr info, s2, tr) \<longrightarrow>
      (\<exists>h. onMessage env msg s = Inr h
         \<and> responses h = [[(''success'', JBool True),
                            (''deviceCode'', JString (user_code info)),
                            (''verificationUrl'', JString (verification_uri info))]])"
    by (auto simp: onMessage_login handleGithubLogin_def)
  have loginActive: "\<forall>s1 info. action msg = ''github-login''
         \<and> githubDeviceCodeStorage_isActive (isActiveNow1 env) (isActiveNow2 env)
              (isActiveNow3 env) s = (True, s1)
         \<and> deviceCodeStorage_get s1 = Some info \<longrightarrow>
      (\<exists>h. onMessage env msg s = Inr h
         \<and> responses h = [[(''success'', JBool True), (''alreadyInProgress'', JBool True),
                            (''deviceCode'', JString (user_code info)),
                            (''verificationUrl'', JString (verification_uri info))]])"
    by (auto simp: onMessage_login handleGithubLogin_def)
  have reposFail: "\<forall>e tr. action msg = ''fetch-github-repos''
         \<and> fetchUserRepositories (reposAnswer env) s = (Inl e, tr) \<longrightarrow>
      (\<exists>h. onMessage env msg s = Inr h
         \<and> responses h = [[(''success'', JBool False), (''error'', JString (message e))]])"
    by (auto simp: onMessage_repos handleFetchRepositories_def fetchUserRepositories_def
          failure_def Let_def)
  have reposDone: "\<forall>repositories tr. action msg = ''fetch-github-repos''
         \<and> fetchUserRepositories (reposAnswer env) s = (Inr repositories, tr) \<longrightarrow>
      (\<exists>h. onMessage env msg s = Inr h
         \<and> responses h = [[(''success'', JBool True),
                            (''repositories'', JRepos repositories)]])"
    by (auto simp: onMessage_repos handleFetchRepositories_def fetchUserRepositories_def
          Let_def split: if_splits)
  have pageFails: "action msg = ''open-verification-page''
         \<and> (deviceCodeStorage_get s = None
              \<or> (\<exists>info. deviceCodeStorage_get s = Some info \<and> verification_uri info = '''')) \<longrightarrow>
      (\<exists>h. onMessage env msg s = Inr h
         \<and> responses h = [[(''success'', JBool False),
                            (''error'', JString ''No active device flow found'')]])"
    by (auto simp: onMessage_page handleOpenVerificationPage_def failure_def)
  have pageOpens: "\<forall>info. action msg = ''open-verification-page''
         \<and> deviceCodeStorage_get s = Some info \<and> verification_uri info \<noteq> '''' \<longrightarrow>
      (\<exists>h. onMessage env msg s = Inr h \<and> responses h = [[(''success'', JBool True)]])"
    by (auto simp: onMessage_page handleOpenVerificationPage_def)
  have plain: "action msg \<in> set [''cancel-device-flow'', ''github-logout'', ''save-repo-config'',
                         ''update-repo-path''] \<longrightarrow>
      (\<exists>h. onMessage env msg s = Inr h \<and> responses h = [[(''success'', JBool True)]])"
    by (auto simp: onMessage_def getProperty_def handlers_def returning_def
          handleCancelDeviceFlow_def handleLogout_def handleSaveRepoConfig_def
          handleUpdateRepoPath_def)
  have authFails: "\<forall>tr1 e tr2. action msg = ''check-auth-status''
         \<and> isAuthenticated (validateAnswer env) s = (True, tr1)
         \<and> getGithubUserInfo (userAnswer env) (authTokenStorage_get s) = (Inl e, tr2) \<longrightarrow>
      (\<exists>h. onMessage env msg s = Inr h
         \<and> responses h = [[(''isLoggedIn'', JBool False), (''error'', JString (message e))]])"
    by (auto simp: onMessage_auth handleCheckAuthStatus_def Let_def)
  have authDone: "\<forall>tr1 userInfo tr2. action msg = ''check-auth-status''
         \<and> isAuthenticated (validateAnswer env) s = (True, tr1)
         \<and> getGithubUserInfo (userAnswer env) (authTokenStorage_get s) = (Inr userInfo, tr2) \<longrightarrow>
      (\<exists>h. onMessage env msg s = Inr h
         \<and> responses h = [[(''isLoggedIn'', JBool True), (''user'', JUser userInfo)]])"
    by (auto simp: onMessage_auth handleCheckAuthStatus_def Let_def)
  have authOut: "\<forall>tr1. action msg = ''check-auth-status''
         \<and> isAuthenticated (validateAnswer env) s = (False, tr1) \<longrightarrow>
      (\<exists>h. onMessage env msg s = Inr h \<and> responses h = [[(''isLoggedIn'', JBool False)]])"
    by (auto simp: onMessage_auth handleCheckAuthStatus_def)
  have flowIdle: "\<forall>s1. action msg = ''check-device-flow''
         \<and> githubDeviceCodeStorage_isActive (isActiveNow1 env) (isActiveNow2 env)
              (isActiveNow3 env) s = (False, s1) \<longrightarrow>
      (\<exists>h. onMessage env msg s = Inr h \<and> responses h = [[(''inProgress'', JBool False)]])"
    by (auto simp: onMessage_flow handleCheckDeviceFlow_def)
  have flowActive: "\<forall>s1 info. action msg = ''check-device-flow''
         \<and> githubDeviceCodeStorage_isActive (isActiveNow1 env) (isActiveNow2 env)
              (isActiveNow3 env) s = (True, s1)
         \<and> deviceCodeStorage_get s1 = Some info \<longrightarrow>
      (\<exists>h. onMessage env msg s = Inr h
         \<and> responses h = [[(''inProgress'', JBool True),
                            (''deviceCode'', JString (user_code info)),
                            (''verificationUrl'', JString (verification_uri info))]])"
    by (auto simp: onMessage_flow handleCheckDeviceFlow_def)
  from shape flowShape authShape submitFails submitDone loginFails loginStarts loginActive
    reposFail reposDone pageFails pageOpens plain authFails authDone authOut flowIdle flowActive
  show ?thesis by (intro conjI)
qed

theorem response_shapes_witness:
  "(\<exists>h. onMessage exampleEnv (exampleMessage ''fetch-github-repos'')
              (initialStorage\<lparr>github_auth_token := ''tok''\<rparr>) = Inr h
        \<and> responses h = [[(''success'', JBool False), (''error'', JString ''Failed to fetch'')]])
   \<and> (\<exists>h. onMessage exampleEnv (exampleMessage ''submit-leetcode-solution'') initialStorage
              = Inr h
        \<and> responses h = [[(''success'', JBool False),
                           (''error'', JString ''Missing GitHub configuration'')]])
   \<and> (\<exists>h. onMessage (exampleEnv\<lparr>validateAnswer :=
                          Inr (Response 200 \<lparr>login = ''u'', name = ''U'', avatar_url = ''a''\<rparr>)\<rparr>)
              (exampleMessage ''check-auth-status'')
              (initialStorage\<lparr>github_auth_token := ''tok''\<rparr>) = Inr h
        \<and> responses h = [[(''isLoggedIn'', JBool False),
                           (''error'', JString ''Failed to fetch'')]])
   \<and> (\<exists>h. onMessage exampleEnv (exampleMessage ''update-repo-path'') initialStorage = Inr h
        \<and> responses h = [[(''success'', JBool True)]])"
proof -
  let ?tok = "initialStorage\<lparr>github_auth_token := ''tok''\<rparr>"
  let ?env = "exampleEnv\<lparr>validateAnswer :=
                Inr (Response 200 \<lparr>login = ''u'', name = ''U'', avatar_url = ''a''\<rparr>)\<rparr>"
  have repos: "action (exampleMessage ''fetch-github-repos'') = ''fetch-github-repos''
      \<and> fetchUserRepositories (reposAnswer exampleEnv) ?tok =
          (Inl (Error ''Failed to fetch''), [Fetch (reposRequest ''tok'')])"
    by (simp add: exampleMessage_def fetchUserRepositories_def exampleEnv_def
          initialStorage_def storage_ops)
  from response_shapes [of "exampleMessage ''fetch-github-repos''" exampleEnv ?tok,
      THEN conjunct2, THEN conjunct2, THEN conjunct2, THEN conjunct2,
      THEN conjunct2, THEN conjunct2, THEN conjunct2, THEN conjunct2, THEN conjunct1, rule_format, OF repos]
  have first: "\<exists>h. onMessage exampleEnv (exampleMessage ''fetch-github-repos'') ?tok = Inr h
        \<and> responses h = [[(''success'', JBool False),
                           (''error'', JString (message (Error ''Failed to fetch'')))]]"
    .
  have submit: "action (exampleMessage ''submit-leetcode-solution'') = ''submit-leetcode-solution''
      \<and> msg_data (exampleMessage ''submit-leetcode-solution'') =
          Some \<lparr>problemId = ''two-sum'', problemName = ''Two Sum'', language = ''python'',
                extension = Some ''py'', code = ''x=1''\<rparr>
      \<and> commitSolutionToGithub (commitNow exampleEnv) (putAnswer exampleEnv)
           \<lparr>problemId = ''two-sum'', problemName = ''Two Sum'', language = ''python'',
            extension = Some ''py'', code = ''x=1''\<rparr> initialStorage =
          (Inl (Error ''Missing GitHub configuration''), [])"
    by (simp add: exampleMessage_def commitSolutionToGithub_def initialStorage_def storage_ops)
  from response_shapes [of "exampleMessage ''submit-leetcode-solution''" exampleEnv
         initialStorage,
      THEN conjunct2, THEN conjunct2, THEN conjunct2, THEN conjunct1, rule_format, OF submit]
  have second: "\<exists>h. onMessage exampleEnv (exampleMessage ''submit-leetcode-solution'')
              initialStorage = Inr h
        \<and> responses h = [[(''success'', JBool False),
             (''error'', JString (message (Error ''Missing GitHub configuration'')))]]"
    .
  have auth: "action (exampleMessage ''check-auth-status'') = ''check-auth-status''
      \<and> isAuthenticated (validateAnswer ?env) ?tok = (True, [Fetch (userRequest ''tok'')])
      \<and> getGithubUserInfo (userAnswer ?env) (authTokenStorage_get ?tok) =
          (Inl (Error ''Failed to fetch''), [Fetch (userRequest ''tok'')])"
    by (simp add: exampleMessage_def isAuthenticated_def validateGithubToken_def
          getGithubUserInfo_def exampleEnv_def initialStorage_def storage_ops)
  from response_shapes [of "exampleMessage ''check-auth-status''" ?env ?tok,
      THEN conjunct2, THEN conjunct2, THEN conjunct2, THEN conjunct2,
      THEN conjunct2, THEN conjunct2, THEN conjunct2, THEN conjunct2,
      THEN conjunct2, THEN conjunct2, THEN conjunct2, THEN conjunct2,
      THEN conjunct2, THEN conjunct1, rule_format, OF auth]
  have third: "\<exists>h. onMessage ?env (exampleMessage ''check-auth-status'') ?tok = Inr h
        \<and> responses h = [[(''isLoggedIn'', JBool False),
                           (''error'', JString (message (Error ''Failed to fetch'')))]]"
    .
  have path: "action (exampleMessage ''update-repo-path'') \<in>
      set [''cancel-device-flow'', ''github-logout'', ''save-repo-config'', ''update-repo-path'']"
    by (simp add: exampleMessage_def)
  from response_shapes [of "exampleMessage ''update-repo-path''" exampleEnv initialStorage,
      THEN conjunct2, THEN conjunct2, THEN conjunct2, THEN conjunct2,
      THEN conjunct2, THEN conjunct2, THEN conjunct2, THEN conjunct2,
      THEN conjunct2, THEN conjunct2, THEN conjunct2, THEN conjunct2, THEN conjunct1, rule_format, OF path]
  have fourth: "\<exists>h. onMessage exampleEnv (exampleMessage ''update-repo-path'') initialStorage
        = Inr h \<and> responses h = [[(''success'', JBool True)]]"
    .
  from first second third fourth show ?thesis by (simp only: exn.sel)
qed

end
